theory Spec2Isabelle
  imports Main "HOL-Library.Word"
begin

unbundle bit_operations_syntax

section \<open>Data model of zynmidicontroller.cpp\<close>

text \<open>
  The library keeps its whole state in global variables. The embedding collects them in
  one record that every function takes and returns. Bytes (\<open>uint8_t\<close>,
  \<open>jack_midi_data_t\<close>, \<open>unsigned char\<close>) are 8-bit words, the three protocol variables
  (\<open>unsigned int\<close>) are 32-bit words, so that the value \<open>-1\<close> the source stores in them is
  the word \<open>0xFFFFFFFF\<close>. \<open>g_nCCoffset\<close> is a C \<open>int\<close>; the only values the source
  assigns to it are \<open>bank\<close> with \<open>bank < 7\<close> and \<open>8 * (b - 1)\<close> for a byte \<open>b\<close>, so it is
  modelled as an integer.

  The flag \<open>g_bMutex\<close> is left out: every function that sets it clears it again before it
  returns, so in the sequential reading modelled here it is false at every entry and the
  polling loops \<open>while(g_bMutex)\<close> are skipped.
\<close>

type_synonym byte = "8 word"

text \<open>A queued \<open>MIDI_MESSAGE\<close>: its \<open>data\<close> bytes; \<open>size\<close> is the length of the list.\<close>

type_synonym MIDI_MESSAGE = "byte list"

text \<open>
  What the liblo client and server objects are asked to do is recorded in the state:
  the messages passed to \<open>g_oscClient.send\<close>, the methods registered on \<open>g_oscServer\<close>
  and whether the server thread has been started.
\<close>

datatype osc_arg = OscInt int | OscStr string

type_synonym osc_msg = "string \<times> osc_arg list"

record globals =
  g_pJackClient :: bool
  g_nInputProtocol :: "32 word"
  g_nOutputProtocol :: "32 word"
  g_nProtocol :: "32 word"
  g_bShift :: bool
  g_nPadColour :: "byte list"
  g_nCCoffset :: int
  g_nMidiChannel :: byte
  g_vSendQueue :: "MIDI_MESSAGE list"
  osc_methods :: "(string \<times> string) list"
  osc_running :: bool
  osc_sent :: "osc_msg list"

text \<open>
  The header \<open>constants.h\<close> is not part of the sources at hand. The macros the functions
  below use are therefore parameters: the two device identifiers, which the source
  compares with the \<open>unsigned int\<close> \<open>g_nProtocol\<close>, and the six play states, which are
  the labels of a \<open>switch\<close> over a \<open>uint16_t\<close> promoted to \<open>int\<close>.
\<close>

record constants =
  DEVICE_LAUNCHKEY_MINI_MK3 :: "32 word"
  DEVICE_LAUNCHPAD_MINI_MK3 :: "32 word"
  STOPPED :: int
  STARTING :: int
  RESTARTING :: int
  PLAYING :: int
  STOPPING :: int
  DISABLED :: int

definition g_sSupported :: "string list" where
  "g_sSupported = [''Launchkey-Mini-MK3-MIDI-2'', ''Launchpad-Mini-MK3-MIDI-2'']"

definition g_nSupportedQuant :: nat where
  "g_nSupportedQuant = length g_sSupported"

definition g_nDrumPads :: "byte list" where
  "g_nDrumPads = [40,41,42,43,44,45,46,47,48,49,50,51,36,37,38,39,40,41,42,43,44,45,46,47]"

definition g_nLKM3SessionPads :: "byte list" where
  "g_nLKM3SessionPads = [96,97,98,99,100,101,102,103,112,113,114,115,116,117,118,119]"

definition g_nLPM3SessionPads :: "byte list" where
  "g_nLPM3SessionPads =
     [81,82,83,84,85,86,87,88,
      71,72,73,74,75,76,77,78,
      61,62,63,64,65,66,67,68,
      51,52,53,54,55,56,57,58,
      41,42,43,44,45,46,47,48,
      31,32,33,34,35,36,37,38,
      21,22,23,24,25,26,27,28,
      11,12,13,14,15,16,17,18]"

definition g_nPadColours :: "byte list" where
  "g_nPadColours = [67,35,9,47,105,63,94,126,40,81,8,45,28,95,104,44]"

definition g_nDrumColour :: byte where "g_nDrumColour = 79"
definition g_nDrumOnColour :: byte where "g_nDrumOnColour = 90"
definition g_nStartingColour :: byte where "g_nStartingColour = 123"
definition g_nStoppingColour :: byte where "g_nStoppingColour = 120"

text \<open>
  The globals as their initialisers leave them; \<open>g_nPadColour\<close> has static storage and
  starts as 64 zero bytes. \<open>init\<close> then opens the JACK client.
\<close>

definition initial_globals :: globals where
  "initial_globals =
     \<lparr> g_pJackClient = False,
       g_nInputProtocol = - 1,
       g_nOutputProtocol = - 1,
       g_nProtocol = - 1,
       g_bShift = False,
       g_nPadColour = replicate 64 0,
       g_nCCoffset = 0,
       g_nMidiChannel = 0,
       g_vSendQueue = [],
       osc_methods = [],
       osc_running = False,
       osc_sent = [] \<rparr>"

section \<open>The JACK MIDI buffer\<close>

text \<open>
  Modelled from the spec: \<open>jack_midi_event_reserve\<close> and \<open>jack_midi_clear_buffer\<close>
  belong to JACK and are not in the repository. The spec describes the buffer as a
  reservable byte sink: a reservation takes a length and gives a writable region, or
  fails when the capacity is exhausted. The buffer is a capacity in bytes and the events
  written so far, in the order they were reserved.
\<close>

record jack_buffer =
  capacity :: nat
  events :: "byte list list"

definition buffer_used :: "jack_buffer \<Rightarrow> nat" where
  "buffer_used b = sum_list (map length (events b))"

text \<open>True when the reservation gives a region, false when it gives \<open>NULL\<close>.\<close>

definition jack_midi_event_reserve :: "jack_buffer \<Rightarrow> nat \<Rightarrow> bool" where
  "jack_midi_event_reserve b n = (buffer_used b + n \<le> capacity b)"

text \<open>Filling the region just reserved with the bytes of one event.\<close>

definition write_event :: "jack_buffer \<Rightarrow> byte list \<Rightarrow> jack_buffer" where
  "write_event b m = b\<lparr>events := events b @ [m]\<rparr>"

definition jack_midi_clear_buffer :: "jack_buffer \<Rightarrow> jack_buffer" where
  "jack_midi_clear_buffer b = b\<lparr>events := []\<rparr>"

section \<open>Internal functions\<close>

text \<open>\<open>isDeviceConnected\<close>: the result and the state, since the function assigns \<open>g_nProtocol\<close>.\<close>

definition isDeviceConnected :: "globals \<Rightarrow> bool \<times> globals" where
  "isDeviceConnected s =
     (let s' = (if g_nInputProtocol s = g_nOutputProtocol s
                then s\<lparr>g_nProtocol := g_nInputProtocol s\<rparr> else s)
      in (g_nProtocol s' \<noteq> - 1, s'))"

text \<open>\<open>sendDeviceMidi(data, size)\<close>, with \<open>size\<close> the length of \<open>data\<close>.\<close>

definition sendDeviceMidi :: "globals \<Rightarrow> byte list \<Rightarrow> globals" where
  "sendDeviceMidi s bytes =
     (case bytes of
        [] \<Rightarrow> s
      | b0 # _ \<Rightarrow> if b0 < 128 then s
                 else s\<lparr>g_vSendQueue := g_vSendQueue s @ [bytes]\<rparr>)"

text \<open>
  \<open>sendDeviceMidi3\<close>. In the source's condition \<open>&&\<close> binds tighter than \<open>||\<close>.
\<close>

definition sendDeviceMidi3 :: "globals \<Rightarrow> byte \<Rightarrow> byte \<Rightarrow> byte \<Rightarrow> globals" where
  "sendDeviceMidi3 s status value1 value2 =
     (if status < 128 \<or> (value1 > 127 \<and> value2 > 127) then s
      else s\<lparr>g_vSendQueue := g_vSendQueue s @ [[status, value1, value2]]\<rparr>)"

text \<open>
  \<open>sendPadStatusToDevice\<close>. The labels of a C++ \<open>switch\<close> are pairwise different, so
  the order in which the chain below tries them does not matter for any header with
  which the source compiles. A state that is none of the labels falls out of the
  \<open>switch\<close> with nothing done. The note of the pad is \<open>None\<close> where the source returns
  before the \<open>switch\<close>.
\<close>

definition sendPadStatusToDevice :: "constants \<Rightarrow> globals \<Rightarrow> byte \<Rightarrow> 16 word \<Rightarrow> globals" where
  "sendPadStatusToDevice K s sequence state =
     (case (if g_nProtocol s = DEVICE_LAUNCHKEY_MINI_MK3 K \<and> sequence < 16
            then Some (g_nLKM3SessionPads ! unat sequence)
            else if g_nProtocol s = DEVICE_LAUNCHPAD_MINI_MK3 K \<and> sequence < 64
            then Some (g_nLPM3SessionPads ! unat sequence)
            else None) of
        None \<Rightarrow> s
      | Some pad \<Rightarrow>
          if uint state = STOPPED K then
            sendDeviceMidi3 s 0x90 pad (g_nPadColour s ! unat sequence)
          else if uint state = STARTING K \<or> uint state = RESTARTING K then
            sendDeviceMidi3
              (sendDeviceMidi3 s 0x90 pad (g_nPadColour s ! unat sequence))
              0x91 pad g_nStartingColour
          else if uint state = PLAYING K then
            sendDeviceMidi3 s 0x92 pad (g_nPadColour s ! unat sequence)
          else if uint state = STOPPING K then
            sendDeviceMidi3
              (sendDeviceMidi3 s 0x90 pad (g_nPadColour s ! unat sequence))
              0x91 pad g_nStoppingColour
          else if uint state = DISABLED K then
            sendDeviceMidi3 s 0x90 pad 0
          else s)"

text \<open>
  \<open>onOscStatus\<close>: the handler of \<open>/sequence/status\<close>, registered with the type string
  \<open>iiii\<close>. Each argument is a 32-bit integer that the handler narrows to \<open>uint8_t\<close>;
  \<open>nArgs\<close> is the length of the argument list.
\<close>

definition onOscStatus :: "constants \<Rightarrow> globals \<Rightarrow> 32 word list \<Rightarrow> globals" where
  "onOscStatus K s pArgs =
     (if length pArgs < 4 then s
      else
        let nSequence = (ucast (pArgs ! 1) :: byte);
            nState = (ucast (pArgs ! 2) :: byte);
            nGroup = (ucast (pArgs ! 3) :: byte)
        in if nSequence > 63 then s
           else sendPadStatusToDevice K
                  (s\<lparr>g_nPadColour :=
                       (g_nPadColour s)[unat nSequence := g_nPadColours ! (unat nGroup mod 16)]\<rparr>)
                  nSequence (ucast nState))"

text \<open>\<open>selectKnobs\<close>; the source names the Launchkey by the literal \<open>0\<close> here.\<close>

definition selectKnobs :: "globals \<Rightarrow> 32 word \<Rightarrow> globals" where
  "selectKnobs s bank =
     (if g_nProtocol s = 0 then
        let (connected, s1) = isDeviceConnected s
        in if connected \<and> bank < 7
           then sendDeviceMidi3 (s1\<lparr>g_nCCoffset := uint bank\<rparr>) 0xbf 9 (ucast bank)
           else s1
      else s)"

definition setMidiChannel :: "globals \<Rightarrow> 32 word \<Rightarrow> globals" where
  "setMidiChannel s channel =
     (if channel < 16 then s\<lparr>g_nMidiChannel := ucast channel\<rparr> else s)"

definition osc_send :: "globals \<Rightarrow> string \<Rightarrow> osc_arg list \<Rightarrow> globals" where
  "osc_send s path args = s\<lparr>osc_sent := osc_sent s @ [(path, args)]\<rparr>"

definition osc_subscribe :: "globals \<Rightarrow> globals" where
  "osc_subscribe s =
     osc_send
       (osc_send
          (s\<lparr>osc_methods := osc_methods s @ [(''/sequence/status'', ''iiii''), (''smf'', ''i'')],
             osc_running := True\<rparr>)
          ''/cuia/register'' [OscStr ''localhost'', OscInt 2001, OscStr ''/SEQUENCER/STATE''])
       ''/cuia/register'' [OscStr ''localhost'', OscInt 2001, OscStr ''SMF'']"

definition osc_unsubscribe :: "globals \<Rightarrow> globals" where
  "osc_unsubscribe s =
     osc_send
       (osc_send
          (s\<lparr>osc_methods :=
               filter (\<lambda>m. m \<noteq> (''/sequence/status'', ''iiii'') \<and> m \<noteq> (''smf'', ''i''))
                 (osc_methods s),
             osc_running := False\<rparr>)
          ''/cuia/unregister'' [OscStr ''localhost'', OscInt 2001, OscStr ''/SEQUENCER/STATE''])
       ''/cuia/unregister'' [OscStr ''localhost'', OscInt 2001, OscStr ''SMF'']"

text \<open>
  \<open>enableDevice\<close>. The first block of the source (registering or removing the two OSC
  methods, starting or stopping the server, the two messages to \<open>/cuia/register\<close> or
  \<open>/cuia/unregister\<close>) is \<open>osc_subscribe\<close> and \<open>osc_unsubscribe\<close> above.
\<close>

definition enableDevice :: "constants \<Rightarrow> globals \<Rightarrow> bool \<Rightarrow> globals" where
  "enableDevice K s enable =
     (let (connected, s1) = isDeviceConnected s
      in if \<not> connected then s1
         else
           let s2 = (if enable then osc_subscribe s1 else osc_unsubscribe s1)
           in if g_nProtocol s2 = DEVICE_LAUNCHKEY_MINI_MK3 K then
                let s3 = sendDeviceMidi3 s2 0x9f 12 (if enable then 127 else 0)
                in if \<not> enable then s3
                   else
                     let s4 = fold (\<lambda>pad t. sendDeviceMidi3 t 0x99 (g_nDrumPads ! pad) g_nDrumColour)
                                [0..<16] s3;
                         s5 = fold (\<lambda>pad t. sendPadStatusToDevice K t (of_nat pad)
                                               (word_of_int (STOPPED K)))
                                [0..<16] s4
                     in selectKnobs s5 1
              else if g_nProtocol s2 = DEVICE_LAUNCHPAD_MINI_MK3 K then
                sendDeviceMidi s2 [0xf0,0x00,0x20,0x29,0x02,0x0d,0x00,0x7f,0xf7]
              else s2)"

definition initLaunchkey :: "constants \<Rightarrow> globals \<Rightarrow> nat \<Rightarrow> globals" where
  "initLaunchkey K s protocol =
     (if protocol \<ge> g_nSupportedQuant then s
      else
        let (connected, s1) = isDeviceConnected (s\<lparr>g_nProtocol := - 1\<rparr>)
        in if \<not> connected then s1
           else enableDevice K (s1\<lparr>g_nProtocol := of_nat protocol\<rparr>) True)"

section \<open>Decoding the device's events\<close>

text \<open>
  \<open>sendMidi\<close> writes one three-byte event to the host output buffer; the \<open>int\<close> arguments
  are narrowed to bytes by the assignments to \<open>pBuffer\<close>.
\<close>

definition sendMidi :: "jack_buffer \<Rightarrow> int \<Rightarrow> int \<Rightarrow> int \<Rightarrow> jack_buffer" where
  "sendMidi out command value1 value2 =
     (if \<not> jack_midi_event_reserve out 3 then out
      else write_event out [word_of_int command, word_of_int value1, word_of_int value2])"

text \<open>
  \<open>protocolHandler\<close>. The event is \<open>None\<close> for a null pointer; its \<open>size\<close> is the length
  of its bytes. Only protocol \<open>0\<close> has a decoder. \<open>b0\<close>, \<open>b1\<close>, \<open>b2\<close> stand for
  \<open>pBuffer[0]\<close>, \<open>pBuffer[1]\<close>, \<open>pBuffer[2]\<close>.
\<close>

definition protocolHandler ::
  "globals \<Rightarrow> byte list option \<Rightarrow> jack_buffer \<Rightarrow> globals \<times> jack_buffer" where
  "protocolHandler s pEvent out =
     (case pEvent of
        None \<Rightarrow> (s, out)
      | Some ev \<Rightarrow>
          if length ev \<noteq> 3 then (s, out)
          else
            let b0 = ev ! 0; b1 = ev ! 1; b2 = ev ! 2
            in if g_nProtocol s = 0 then
                 if b0 AND 0xF0 = 0x90 then
                   if b1 > 35 \<and> b1 < 52 then
                     (sendDeviceMidi3 s 0x99 b1 g_nDrumOnColour,
                      sendMidi out 0x99 (uint b1) (uint b2))
                   else if b1 > 95 \<and> b1 < 104 then
                     (osc_send s ''/cuia/TOGGLE_SEQUENCE'' [OscInt (uint b1 - 96)], out)
                   else if b1 > 111 \<and> b1 < 120 then
                     (osc_send s ''/cuia/TOGGLE_SEQUENCE'' [OscInt (uint b1 - 104)], out)
                   else (s, out)
                 else if b0 AND 0xF0 = 0x80 then
                   if b1 > 35 \<and> b1 < 52 then
                     (sendDeviceMidi3 s 0x99 b1 g_nDrumColour,
                      sendMidi out 0x89 (uint b1) (uint b2))
                   else (s, out)
                 else if b0 AND 0xF0 = 0xb0 then
                   let s1 = (if b1 = 9 then s\<lparr>g_nCCoffset := 8 * (uint b2 - 1)\<rparr>
                             else if b1 = 108 then s\<lparr>g_bShift := (b2 \<noteq> 0)\<rparr>
                             else s)
                   in if g_bShift s1 then
                        if b1 = 104 then
                          (if b2 \<noteq> 0 then osc_send s1 ''/cuia/BACK_UP'' [] else s1, out)
                        else if b1 = 105 then
                          (if b2 \<noteq> 0 then osc_send s1 ''/cuia/BACK_DOWN'' [] else s1, out)
                        else if b1 = 103 then
                          (if b2 \<noteq> 0 then osc_send s1 ''/cuia/SELECT_UP'' [] else s1, out)
                        else if b1 = 102 then
                          (if b2 \<noteq> 0 then osc_send s1 ''/cuia/SELECT_DOWN'' [] else s1, out)
                        else if b1 > 20 \<and> b1 < 29 then
                          (s1, sendMidi out (uint ((0xb0 :: byte) OR g_nMidiChannel s1))
                                 (uint b1 + g_nCCoffset s1 + 40) (uint b2))
                        else if b1 = 115 then
                          (if b2 \<noteq> 0 then osc_send s1 ''/cuia/TOGGLE_AUDIO_PLAY'' [] else s1, out)
                        else if b1 = 117 then
                          (if b2 \<noteq> 0 then osc_send s1 ''/cuia/TOGGLE_AUDIO_RECORD'' [] else s1, out)
                        else (s1, out)
                      else
                        if b1 = 104 then
                          (if b2 \<noteq> 0 then osc_send s1 ''/cuia/SWITCH_SELECT_SHORT'' [] else s1, out)
                        else if b1 = 105 then
                          (if b2 \<noteq> 0 then osc_send s1 ''/cuia/SWITCH_BACK_SHORT'' [] else s1, out)
                        else if b1 > 20 \<and> b1 < 29 then
                          (s1, sendMidi out (uint ((0xb0 :: byte) OR g_nMidiChannel s1))
                                 (uint b1 + g_nCCoffset s1) (uint b2))
                        else if b1 = 115 then
                          (if b2 \<noteq> 0 then osc_send s1 ''/cuia/TOGGLE_MIDI_PLAY'' [] else s1, out)
                        else if b1 = 117 then
                          (if b2 \<noteq> 0 then osc_send s1 ''/cuia/TOGGLE_MIDI_RECORD'' [] else s1, out)
                        else (s1, out)
                 else (s, out)
               else (s, out))"

section \<open>The process cycle\<close>

text \<open>
  The loop of \<open>onJackProcess\<close> over \<open>g_vSendQueue\<close>: reserve room for the head of the
  queue; stop when there is none; otherwise copy the bytes and erase the head.
\<close>

fun drain :: "MIDI_MESSAGE list \<Rightarrow> jack_buffer \<Rightarrow> MIDI_MESSAGE list \<times> jack_buffer" where
  "drain [] dev = ([], dev)"
| "drain (m # q) dev =
     (if \<not> jack_midi_event_reserve dev (length m) then (m # q, dev)
      else drain q (write_event dev m))"

text \<open>
  \<open>onJackProcess\<close>, given this period's input events and the two output buffers that
  \<open>jack_port_get_buffer\<close> hands out. The result is the state with the host and the
  device output buffer.
\<close>

definition onJackProcess ::
  "globals \<Rightarrow> byte list list \<Rightarrow> jack_buffer \<Rightarrow> jack_buffer \<Rightarrow> globals \<times> jack_buffer \<times> jack_buffer" where
  "onJackProcess s input pOutputBuffer pDeviceOutputBuffer =
     (if \<not> g_pJackClient s then (s, pOutputBuffer, pDeviceOutputBuffer)
      else
        let out0 = jack_midi_clear_buffer pOutputBuffer;
            dev0 = jack_midi_clear_buffer pDeviceOutputBuffer;
            (s1, out1) = fold (\<lambda>ev (t, out). protocolHandler t (Some ev) out) input (s, out0);
            (q, dev1) = drain (g_vSendQueue s1) dev0
        in (s1\<lparr>g_vSendQueue := q\<rparr>, out1, dev1))"

section \<open>Connection detection\<close>

text \<open>\<open>strstr(haystack, needle) != NULL\<close>: the needle occurs in the haystack.\<close>

fun strstr :: "string \<Rightarrow> string \<Rightarrow> bool" where
  "strstr [] needle = (needle = [])"
| "strstr (c # cs) needle = (take (length needle) (c # cs) = needle \<or> strstr cs needle)"

text \<open>
  A port connection callback, after the two \<open>jack_port_by_id\<close> lookups: whether the
  destination is the library's device input port, whether the source is its device
  output port, the aliases \<open>jack_port_get_aliases\<close> gives for either end, and whether
  \<open>connect\<close> is non-zero.
\<close>

record notification =
  dstIsInputPortDevice :: bool
  srcIsOutputPortDevice :: bool
  srcAliases :: "string list"
  dstAliases :: "string list"
  connect :: bool

definition onJackConnect :: "constants \<Rightarrow> globals \<Rightarrow> notification \<Rightarrow> globals" where
  "onJackConnect K s n =
     (if \<not> g_pJackClient s then s
      else if dstIsInputPortDevice n then
        fold (\<lambda>alias. fold (\<lambda>j t.
                 if strstr alias (g_sSupported ! j)
                 then initLaunchkey K
                        (t\<lparr>g_nInputProtocol := (if connect n then of_nat j else - 1)\<rparr>) j
                 else t) [0..<g_nSupportedQuant])
          (srcAliases n) s
      else if srcIsOutputPortDevice n then
        fold (\<lambda>alias. fold (\<lambda>j t.
                 if strstr alias (g_sSupported ! j)
                 then initLaunchkey K
                        (t\<lparr>g_nOutputProtocol := (if connect n then of_nat j else - 1)\<rparr>) j
                 else t) [0..<g_nSupportedQuant])
          (dstAliases n) s
      else s)"

section \<open>The properties as the specification words them\<close>

text \<open>
  The connection invariant: the active protocol is set exactly when the recorded input
  and output protocols are equal and set.
\<close>

definition connection_invariant :: "globals \<Rightarrow> bool" where
  "connection_invariant s =
     ((g_nProtocol s \<noteq> - 1) =
      (g_nInputProtocol s = g_nOutputProtocol s \<and> g_nInputProtocol s \<noteq> - 1))"

text \<open>The states the library is in after each of a list of connection callbacks.\<close>

fun run_notifications :: "constants \<Rightarrow> globals \<Rightarrow> notification list \<Rightarrow> globals list" where
  "run_notifications K s [] = []"
| "run_notifications K s (n # ns) =
     onJackConnect K s n # run_notifications K (onJackConnect K s n) ns"

text \<open>
  The encode rules of the specification, by status: the envelopes for a pad with note
  \<open>pad\<close> and stored colour \<open>colour\<close>.
\<close>

datatype pad_status = Stopped | Starting | Restarting | Playing | Stopping | Disabled

fun status_code :: "constants \<Rightarrow> pad_status \<Rightarrow> int" where
  "status_code K Stopped = STOPPED K"
| "status_code K Starting = STARTING K"
| "status_code K Restarting = RESTARTING K"
| "status_code K Playing = PLAYING K"
| "status_code K Stopping = STOPPING K"
| "status_code K Disabled = DISABLED K"

fun encode_rule :: "pad_status \<Rightarrow> byte \<Rightarrow> byte \<Rightarrow> MIDI_MESSAGE list" where
  "encode_rule Stopped pad colour = [[0x90, pad, colour]]"
| "encode_rule Starting pad colour = [[0x90, pad, colour], [0x91, pad, g_nStartingColour]]"
| "encode_rule Restarting pad colour = [[0x90, pad, colour], [0x91, pad, g_nStartingColour]]"
| "encode_rule Playing pad colour = [[0x92, pad, colour]]"
| "encode_rule Stopping pad colour = [[0x90, pad, colour], [0x91, pad, g_nStoppingColour]]"
| "encode_rule Disabled pad colour = [[0x90, pad, 0]]"

text \<open>
  A header under which the source compiles, for the examples. The device identifiers are
  the positions of the two devices in \<open>g_sSupported\<close>: these are the values that
  \<open>onJackConnect\<close> records and that \<open>initLaunchkey\<close> stores in \<open>g_nProtocol\<close>, and
  \<open>protocolHandler\<close> and \<open>selectKnobs\<close> name the Launchkey by the literal \<open>0\<close>.
\<close>

definition example_constants :: constants where
  "example_constants =
     \<lparr> DEVICE_LAUNCHKEY_MINI_MK3 = 0, DEVICE_LAUNCHPAD_MINI_MK3 = 1,
       STOPPED = 0, STARTING = 1, RESTARTING = 2, PLAYING = 3, STOPPING = 4, DISABLED = 5 \<rparr>"

text \<open>
  States and inputs for the examples: the library after \<open>init\<close> has opened the JACK
  client, the callbacks for a device connected to or disconnected from the device input
  and the device output port, and the Launchkey connected on both.
\<close>

definition started :: globals where
  "started = initial_globals\<lparr>g_pJackClient := True\<rparr>"

definition input_notification :: "string \<Rightarrow> bool \<Rightarrow> notification" where
  "input_notification alias c =
     \<lparr> dstIsInputPortDevice = True, srcIsOutputPortDevice = False,
       srcAliases = [alias], dstAliases = [], connect = c \<rparr>"

definition output_notification :: "string \<Rightarrow> bool \<Rightarrow> notification" where
  "output_notification alias c =
     \<lparr> dstIsInputPortDevice = False, srcIsOutputPortDevice = True,
       srcAliases = [], dstAliases = [alias], connect = c \<rparr>"

definition launchkey_active :: globals where
  "launchkey_active =
     onJackConnect example_constants
       (onJackConnect example_constants started
          (input_notification ''Launchkey-Mini-MK3-MIDI-2'' True))
       (output_notification ''Launchkey-Mini-MK3-MIDI-2'' True)"

definition launchpad_active :: globals where
  "launchpad_active =
     onJackConnect example_constants
       (onJackConnect example_constants started
          (input_notification ''Launchpad-Mini-MK3-MIDI-2'' True))
       (output_notification ''Launchpad-Mini-MK3-MIDI-2'' True)"

text \<open>
  The Launchkey active, after the device has sent controller 9 with value 127 in a
  period whose host output buffer has room for 64 bytes.
\<close>

definition launchkey_bank_127 :: globals where
  "launchkey_bank_127 =
     fst (protocolHandler launchkey_active (Some [0xbf, 9, 127]) \<lparr>capacity = 64, events = []\<rparr>)"

text \<open>
  The library after \<open>init\<close>, with three envelopes of three bytes enqueued and no device
  connected.
\<close>

definition three_queued :: globals where
  "three_queued =
     sendDeviceMidi3 (sendDeviceMidi3 (sendDeviceMidi3 started 0x90 96 1) 0x90 97 2) 0x90 98 3"

section \<open>What the enqueueing functions leave alone\<close>

lemma sendDeviceMidi3_frame [simp]:
  "g_pJackClient (sendDeviceMidi3 s a b c) = g_pJackClient s"
  "g_nInputProtocol (sendDeviceMidi3 s a b c) = g_nInputProtocol s"
  "g_nOutputProtocol (sendDeviceMidi3 s a b c) = g_nOutputProtocol s"
  "g_nProtocol (sendDeviceMidi3 s a b c) = g_nProtocol s"
  "g_bShift (sendDeviceMidi3 s a b c) = g_bShift s"
  "g_nPadColour (sendDeviceMidi3 s a b c) = g_nPadColour s"
  "g_nCCoffset (sendDeviceMidi3 s a b c) = g_nCCoffset s"
  "g_nMidiChannel (sendDeviceMidi3 s a b c) = g_nMidiChannel s"
  "osc_methods (sendDeviceMidi3 s a b c) = osc_methods s"
  "osc_running (sendDeviceMidi3 s a b c) = osc_running s"
  "osc_sent (sendDeviceMidi3 s a b c) = osc_sent s"
  by (simp_all add: sendDeviceMidi3_def)

lemma sendDeviceMidi_frame [simp]:
  "g_nInputProtocol (sendDeviceMidi s m) = g_nInputProtocol s"
  "g_nOutputProtocol (sendDeviceMidi s m) = g_nOutputProtocol s"
  "g_nProtocol (sendDeviceMidi s m) = g_nProtocol s"
  by (simp_all add: sendDeviceMidi_def split: list.splits)

lemma sendPadStatusToDevice_frame [simp]:
  "g_nInputProtocol (sendPadStatusToDevice K s q st) = g_nInputProtocol s"
  "g_nOutputProtocol (sendPadStatusToDevice K s q st) = g_nOutputProtocol s"
  "g_nProtocol (sendPadStatusToDevice K s q st) = g_nProtocol s"
  "g_nPadColour (sendPadStatusToDevice K s q st) = g_nPadColour s"
  "g_nCCoffset (sendPadStatusToDevice K s q st) = g_nCCoffset s"
  by (simp_all add: sendPadStatusToDevice_def)

lemma osc_send_frame [simp]:
  "g_nInputProtocol (osc_send s p a) = g_nInputProtocol s"
  "g_nOutputProtocol (osc_send s p a) = g_nOutputProtocol s"
  "g_nProtocol (osc_send s p a) = g_nProtocol s"
  "g_vSendQueue (osc_send s p a) = g_vSendQueue s"
  "g_nCCoffset (osc_send s p a) = g_nCCoffset s"
  "g_nPadColour (osc_send s p a) = g_nPadColour s"
  by (simp_all add: osc_send_def)

lemma osc_subscribe_frame [simp]:
  "g_nInputProtocol (osc_subscribe s) = g_nInputProtocol s"
  "g_nOutputProtocol (osc_subscribe s) = g_nOutputProtocol s"
  "g_nProtocol (osc_subscribe s) = g_nProtocol s"
  "g_vSendQueue (osc_subscribe s) = g_vSendQueue s"
  "g_nCCoffset (osc_subscribe s) = g_nCCoffset s"
  "g_nPadColour (osc_subscribe s) = g_nPadColour s"
  "g_nInputProtocol (osc_unsubscribe s) = g_nInputProtocol s"
  "g_nOutputProtocol (osc_unsubscribe s) = g_nOutputProtocol s"
  "g_nProtocol (osc_unsubscribe s) = g_nProtocol s"
  "g_vSendQueue (osc_unsubscribe s) = g_vSendQueue s"
  by (simp_all add: osc_subscribe_def osc_unsubscribe_def)

lemma fold_sendDeviceMidi3_frame [simp]:
  "g_nInputProtocol (fold (\<lambda>pad t. sendDeviceMidi3 t a (f pad) c) xs s) = g_nInputProtocol s"
  "g_nOutputProtocol (fold (\<lambda>pad t. sendDeviceMidi3 t a (f pad) c) xs s) = g_nOutputProtocol s"
  "g_nProtocol (fold (\<lambda>pad t. sendDeviceMidi3 t a (f pad) c) xs s) = g_nProtocol s"
  "g_nPadColour (fold (\<lambda>pad t. sendDeviceMidi3 t a (f pad) c) xs s) = g_nPadColour s"
  by (induction xs arbitrary: s) simp_all

lemma fold_sendPadStatusToDevice_frame [simp]:
  "g_nInputProtocol (fold (\<lambda>pad t. sendPadStatusToDevice K t (g pad) st) xs s) = g_nInputProtocol s"
  "g_nOutputProtocol (fold (\<lambda>pad t. sendPadStatusToDevice K t (g pad) st) xs s) = g_nOutputProtocol s"
  "g_nProtocol (fold (\<lambda>pad t. sendPadStatusToDevice K t (g pad) st) xs s) = g_nProtocol s"
  "g_nPadColour (fold (\<lambda>pad t. sendPadStatusToDevice K t (g pad) st) xs s) = g_nPadColour s"
  by (induction xs arbitrary: s) simp_all

section \<open>The connection invariant\<close>

text \<open>
  Once the two recorded protocols agree and \<open>g_nProtocol\<close> is that value,
  \<open>isDeviceConnected\<close> assigns \<open>g_nProtocol\<close> its own value, so \<open>selectKnobs\<close> and
  \<open>enableDevice\<close> keep all three.
\<close>

lemma selectKnobs_settled:
  assumes "g_nInputProtocol s = g_nOutputProtocol s" "g_nProtocol s = g_nInputProtocol s"
  shows "g_nInputProtocol (selectKnobs s b) = g_nInputProtocol s"
    and "g_nOutputProtocol (selectKnobs s b) = g_nOutputProtocol s"
    and "g_nProtocol (selectKnobs s b) = g_nProtocol s"
  using assms by (simp_all add: selectKnobs_def isDeviceConnected_def Let_def)

lemma enableDevice_settled:
  assumes "g_nInputProtocol s = g_nOutputProtocol s" "g_nInputProtocol s \<noteq> - 1"
  shows "g_nInputProtocol (enableDevice K s e) = g_nInputProtocol s"
    and "g_nOutputProtocol (enableDevice K s e) = g_nOutputProtocol s"
    and "g_nProtocol (enableDevice K s e) = g_nInputProtocol s"
  using assms
  by (simp_all add: enableDevice_def isDeviceConnected_def Let_def selectKnobs_settled)

text \<open>
  \<open>initLaunchkey\<close> establishes the invariant from any state: it clears \<open>g_nProtocol\<close>
  and sets it again only if \<open>isDeviceConnected\<close> finds the two recorded protocols equal
  and set.
\<close>

lemma initLaunchkey_invariant:
  "j < g_nSupportedQuant \<Longrightarrow> connection_invariant (initLaunchkey K s j)"
  by (simp add: connection_invariant_def initLaunchkey_def isDeviceConnected_def Let_def
      enableDevice_settled)

lemma match_loop_invariant:
  assumes "connection_invariant s" "set js \<subseteq> {..<g_nSupportedQuant}"
  shows "connection_invariant
           (fold (\<lambda>j t. if P j then initLaunchkey K (upd j t) j else t) js s)"
  using assms
  by (induction js arbitrary: s) (simp_all add: initLaunchkey_invariant)

lemma alias_loop_invariant:
  assumes "connection_invariant s"
  shows "connection_invariant
           (fold (\<lambda>alias. fold (\<lambda>j t. if P alias j then initLaunchkey K (upd j t) j else t)
                              [0..<g_nSupportedQuant]) as s)"
  using assms
proof (induction as arbitrary: s)
  case Nil
  then show ?case by simp
next
  case (Cons a as)
  have "connection_invariant
          (fold (\<lambda>j t. if P a j then initLaunchkey K (upd j t) j else t) [0..<g_nSupportedQuant] s)"
    using Cons.prems by (intro match_loop_invariant) auto
  then show ?case by (simp add: Cons.IH)
qed

lemma onJackConnect_invariant:
  "connection_invariant s \<Longrightarrow> connection_invariant (onJackConnect K s n)"
  unfolding onJackConnect_def
  by (simp add: alias_loop_invariant
      [where P = "\<lambda>alias j. strstr alias (g_sSupported ! j)"
         and upd = "\<lambda>j t. t\<lparr>g_nInputProtocol := (if connect n then of_nat j else - 1)\<rparr>"]
      alias_loop_invariant
      [where P = "\<lambda>alias j. strstr alias (g_sSupported ! j)"
         and upd = "\<lambda>j t. t\<lparr>g_nOutputProtocol := (if connect n then of_nat j else - 1)\<rparr>"])

lemma started_invariant: "connection_invariant started"
  by (simp add: connection_invariant_def started_def initial_globals_def)

text \<open>
  C1. Starting from a state in which the invariant holds (the initial one does), after
  every callback of any list of connection callbacks the active protocol is set if and
  only if the recorded input and output protocols are equal and set.
\<close>

theorem connection_invariant_after_each_notification:
  assumes "connection_invariant s"
  shows "\<forall>t \<in> set (run_notifications K s ns). connection_invariant t"
  using assms
proof (induction ns arbitrary: s)
  case Nil
  then show ?case by simp
next
  case (Cons n ns)
  have step: "connection_invariant (onJackConnect K s n)"
    using Cons.prems by (rule onJackConnect_invariant)
  from Cons.IH [OF step] step show ?case by simp
qed

text \<open>
  The Launchkey connects on the input, then on the output, then leaves the input: the
  protocol is unset, set to 0, unset again, and the invariant holds at each of the three
  states.
\<close>

lemma launchkey_run_protocols:
  "map g_nProtocol
     (run_notifications example_constants started
        [input_notification ''Launchkey-Mini-MK3-MIDI-2'' True,
         output_notification ''Launchkey-Mini-MK3-MIDI-2'' True,
         input_notification ''Launchkey-Mini-MK3-MIDI-2'' False]) = [- 1, 0, - 1]"
  by code_simp

theorem connection_invariant_after_each_notification_witness:
  "connection_invariant started \<and>
   map g_nProtocol
     (run_notifications example_constants started
        [input_notification ''Launchkey-Mini-MK3-MIDI-2'' True,
         output_notification ''Launchkey-Mini-MK3-MIDI-2'' True,
         input_notification ''Launchkey-Mini-MK3-MIDI-2'' False]) = [- 1, 0, - 1] \<and>
   list_all connection_invariant
     (run_notifications example_constants started
        [input_notification ''Launchkey-Mini-MK3-MIDI-2'' True,
         output_notification ''Launchkey-Mini-MK3-MIDI-2'' True,
         input_notification ''Launchkey-Mini-MK3-MIDI-2'' False])"
  using connection_invariant_after_each_notification [OF started_invariant]
    started_invariant launchkey_run_protocols
  unfolding list_all_iff by blast

section \<open>Draining the queue\<close>

lemma write_event_simps [simp]:
  "events (write_event dev m) = events dev @ [m]"
  "capacity (write_event dev m) = capacity dev"
  by (simp_all add: write_event_def)

lemma drain_prefix:
  "\<exists>n \<le> length q.
     fst (drain q dev) = drop n q \<and>
     events (snd (drain q dev)) = events dev @ take n q \<and>
     capacity (snd (drain q dev)) = capacity dev \<and>
     (\<forall>k < n. jack_midi_event_reserve (dev\<lparr>events := events dev @ take k q\<rparr>) (length (q ! k))) \<and>
     (n < length q \<longrightarrow> \<not> jack_midi_event_reserve (snd (drain q dev)) (length (q ! n)))"
proof (induction q arbitrary: dev)
  case Nil
  then show ?case by simp
next
  case (Cons m q)
  show ?case
  proof (cases "jack_midi_event_reserve dev (length m)")
    case False
    then have "drain (m # q) dev = (m # q, dev)" by simp
    with False show ?thesis by (intro exI [of _ 0]) simp
  next
    case True
    from Cons.IH [of "write_event dev m"] obtain n where n:
      "n \<le> length q"
      "fst (drain q (write_event dev m)) = drop n q"
      "events (snd (drain q (write_event dev m))) = events (write_event dev m) @ take n q"
      "capacity (snd (drain q (write_event dev m))) = capacity dev"
      "\<forall>k < n. jack_midi_event_reserve
                ((write_event dev m)\<lparr>events := events (write_event dev m) @ take k q\<rparr>)
                (length (q ! k))"
      "n < length q \<longrightarrow>
         \<not> jack_midi_event_reserve (snd (drain q (write_event dev m))) (length (q ! n))"
      by auto
    have all: "jack_midi_event_reserve (dev\<lparr>events := events dev @ take k (m # q)\<rparr>)
                 (length ((m # q) ! k))" if "k < Suc n" for k
    proof (cases k)
      case 0
      with True show ?thesis by (simp add: jack_midi_event_reserve_def buffer_used_def)
    next
      case (Suc k')
      with that have "k' < n" by simp
      with n(5) have "jack_midi_event_reserve
                ((write_event dev m)\<lparr>events := events (write_event dev m) @ take k' q\<rparr>)
                (length (q ! k'))" by blast
      then show ?thesis using Suc
        by (simp add: jack_midi_event_reserve_def buffer_used_def)
    qed
    show ?thesis
      using n all True by (intro exI [of _ "Suc n"]) simp
  qed
qed

lemma clear_buffer_simps [simp]:
  "events (jack_midi_clear_buffer b) = []"
  "capacity (jack_midi_clear_buffer b) = capacity b"
  "(jack_midi_clear_buffer b)\<lparr>events := es\<rparr> = b\<lparr>events := es\<rparr>"
  by (simp_all add: jack_midi_clear_buffer_def)

lemma onJackProcess_drain:
  assumes "g_pJackClient s"
    and "fold (\<lambda>ev (t, out). protocolHandler t (Some ev) out) input
           (s, jack_midi_clear_buffer pOutputBuffer) = (s1, out1)"
  shows "onJackProcess s input pOutputBuffer pDeviceOutputBuffer =
           (s1\<lparr>g_vSendQueue :=
                 fst (drain (g_vSendQueue s1) (jack_midi_clear_buffer pDeviceOutputBuffer))\<rparr>,
            out1,
            snd (drain (g_vSendQueue s1) (jack_midi_clear_buffer pDeviceOutputBuffer)))"
  using assms by (simp add: onJackProcess_def Let_def split: prod.splits)

text \<open>
  C2. One process cycle, with the JACK client open, and \<open>s1\<close> the state after the
  decoding of this period's input: the drain step copies a prefix of the queue of
  \<open>s1\<close> to the cleared device output buffer, in queue order, and leaves the rest of
  the queue, in order. There is a number \<open>n\<close> of envelopes such that the state
  returned is \<open>s1\<close> with the queue without its first \<open>n\<close> envelopes, the device
  buffer holds exactly these \<open>n\<close>, each of them was copied after a reservation that
  succeeded, and if an envelope is left then the reservation for the first one left
  fails. So no envelope is lost and none is copied twice.
\<close>

theorem onJackProcess_drains_prefix_in_order:
  assumes "g_pJackClient s"
    and "fold (\<lambda>ev (t, out). protocolHandler t (Some ev) out) input
           (s, jack_midi_clear_buffer pOutputBuffer) = (s1, out1)"
  shows "\<exists>n \<le> length (g_vSendQueue s1).
     fst (onJackProcess s input pOutputBuffer pDeviceOutputBuffer) =
       s1\<lparr>g_vSendQueue := drop n (g_vSendQueue s1)\<rparr> \<and>
     events (snd (snd (onJackProcess s input pOutputBuffer pDeviceOutputBuffer))) =
       take n (g_vSendQueue s1) \<and>
     (\<forall>k < n. jack_midi_event_reserve
        (pDeviceOutputBuffer\<lparr>events := take k (g_vSendQueue s1)\<rparr>)
        (length (g_vSendQueue s1 ! k))) \<and>
     (n < length (g_vSendQueue s1) \<longrightarrow>
        \<not> jack_midi_event_reserve
            (snd (snd (onJackProcess s input pOutputBuffer pDeviceOutputBuffer)))
            (length (g_vSendQueue s1 ! n)))"
proof -
  from drain_prefix [of "g_vSendQueue s1" "jack_midi_clear_buffer pDeviceOutputBuffer"]
  obtain n where n: "n \<le> length (g_vSendQueue s1)"
    "fst (drain (g_vSendQueue s1) (jack_midi_clear_buffer pDeviceOutputBuffer)) =
       drop n (g_vSendQueue s1)"
    "events (snd (drain (g_vSendQueue s1) (jack_midi_clear_buffer pDeviceOutputBuffer))) =
       take n (g_vSendQueue s1)"
    "\<forall>k < n. jack_midi_event_reserve
        (pDeviceOutputBuffer\<lparr>events := take k (g_vSendQueue s1)\<rparr>)
        (length (g_vSendQueue s1 ! k))"
    "n < length (g_vSendQueue s1) \<longrightarrow>
        \<not> jack_midi_event_reserve
            (snd (drain (g_vSendQueue s1) (jack_midi_clear_buffer pDeviceOutputBuffer)))
            (length (g_vSendQueue s1 ! n))"
    by auto
  show ?thesis
    unfolding onJackProcess_drain [OF assms]
    using n by (intro exI [of _ n]) simp
qed

text \<open>
  Three envelopes of three bytes and a device buffer with room for two of them: the
  third stays in \<open>g_vSendQueue\<close>, and the next cycle, on the buffer cleared again,
  delivers it.
\<close>

lemma three_queued_value:
  "three_queued = started\<lparr>g_vSendQueue := [[0x90, 96, 1], [0x90, 97, 2], [0x90, 98, 3]]\<rparr>"
  by (simp add: three_queued_def sendDeviceMidi3_def started_def initial_globals_def)

theorem onJackProcess_drains_prefix_in_order_witness:
  "g_pJackClient three_queued \<and>
   g_vSendQueue three_queued = [[0x90, 96, 1], [0x90, 97, 2], [0x90, 98, 3]] \<and>
   onJackProcess three_queued [] \<lparr>capacity = 64, events = []\<rparr> \<lparr>capacity = 6, events = []\<rparr> =
     (three_queued\<lparr>g_vSendQueue := [[0x90, 98, 3]]\<rparr>,
      \<lparr>capacity = 64, events = []\<rparr>,
      \<lparr>capacity = 6, events = [[0x90, 96, 1], [0x90, 97, 2]]\<rparr>) \<and>
   onJackProcess (three_queued\<lparr>g_vSendQueue := [[0x90, 98, 3]]\<rparr>) []
       \<lparr>capacity = 64, events = []\<rparr> \<lparr>capacity = 6, events = [[0x90, 96, 1], [0x90, 97, 2]]\<rparr> =
     (three_queued\<lparr>g_vSendQueue := []\<rparr>,
      \<lparr>capacity = 64, events = []\<rparr>,
      \<lparr>capacity = 6, events = [[0x90, 98, 3]]\<rparr>) \<and>
   (\<exists>n \<le> length (g_vSendQueue three_queued).
     fst (onJackProcess three_queued [] \<lparr>capacity = 64, events = []\<rparr> \<lparr>capacity = 6, events = []\<rparr>) =
       three_queued\<lparr>g_vSendQueue := drop n (g_vSendQueue three_queued)\<rparr> \<and>
     events (snd (snd (onJackProcess three_queued [] \<lparr>capacity = 64, events = []\<rparr>
                         \<lparr>capacity = 6, events = []\<rparr>))) =
       take n (g_vSendQueue three_queued) \<and>
     (\<forall>k < n. jack_midi_event_reserve
        (\<lparr>capacity = 6, events = []\<rparr>\<lparr>events := take k (g_vSendQueue three_queued)\<rparr>)
        (length (g_vSendQueue three_queued ! k))) \<and>
     (n < length (g_vSendQueue three_queued) \<longrightarrow>
        \<not> jack_midi_event_reserve
            (snd (snd (onJackProcess three_queued [] \<lparr>capacity = 64, events = []\<rparr>
                         \<lparr>capacity = 6, events = []\<rparr>)))
            (length (g_vSendQueue three_queued ! n))))"
proof -
  have client: "g_pJackClient three_queued"
    and queue: "g_vSendQueue three_queued = [[0x90, 96, 1], [0x90, 97, 2], [0x90, 98, 3]]"
    by (simp_all add: three_queued_value started_def initial_globals_def)
  have decode: "fold (\<lambda>ev (t, out). protocolHandler t (Some ev) out) []
           (three_queued, jack_midi_clear_buffer \<lparr>capacity = 64, events = []\<rparr>) =
        (three_queued, \<lparr>capacity = 64, events = []\<rparr>)"
    by (simp add: jack_midi_clear_buffer_def)
  have first: "onJackProcess three_queued [] \<lparr>capacity = 64, events = []\<rparr>
       \<lparr>capacity = 6, events = []\<rparr> =
     (three_queued\<lparr>g_vSendQueue := [[0x90, 98, 3]]\<rparr>,
      \<lparr>capacity = 64, events = []\<rparr>,
      \<lparr>capacity = 6, events = [[0x90, 96, 1], [0x90, 97, 2]]\<rparr>)"
    by (simp add: onJackProcess_def client queue jack_midi_clear_buffer_def
        jack_midi_event_reserve_def buffer_used_def write_event_def)
  have second: "onJackProcess (three_queued\<lparr>g_vSendQueue := [[0x90, 98, 3]]\<rparr>) []
       \<lparr>capacity = 64, events = []\<rparr> \<lparr>capacity = 6, events = [[0x90, 96, 1], [0x90, 97, 2]]\<rparr> =
     (three_queued\<lparr>g_vSendQueue := []\<rparr>,
      \<lparr>capacity = 64, events = []\<rparr>,
      \<lparr>capacity = 6, events = [[0x90, 98, 3]]\<rparr>)"
    by (simp add: onJackProcess_def client jack_midi_clear_buffer_def
        jack_midi_event_reserve_def buffer_used_def write_event_def)
  show ?thesis
    using client queue first second
      onJackProcess_drains_prefix_in_order [OF client decode, of "\<lparr>capacity = 6, events = []\<rparr>"]
    by blast
qed

section \<open>Message construction\<close>

text \<open>
  A sequence of three bytes whose first byte is a status byte, and which
  \<open>sendDeviceMidi3\<close> does not enqueue.
\<close>

theorem sendDeviceMidi3_drops_valid_status:
  "[0x90, 200, 200 :: byte] \<noteq> [] \<and> \<not> hd [0x90, 200, 200 :: byte] < 128 \<and>
   g_vSendQueue (sendDeviceMidi3 started 0x90 200 200) = g_vSendQueue started"
  by (simp add: sendDeviceMidi3_def)

text \<open>
  C7, as amended. \<open>sendDeviceMidi\<close> drops a message exactly when it is empty or its first
  byte is below 128, and otherwise appends the bytes unchanged to the queue.
  \<open>sendDeviceMidi3\<close> drops a message whose status is below 128, and also one whose two
  data bytes are both above 127; it appends the three bytes unchanged when the status
  is at least 128 and both data bytes are at most 127. A dropped message changes
  nothing.
\<close>

theorem message_construction:
  "sendDeviceMidi s bytes =
     (if bytes = [] \<or> hd bytes < 128 then s
      else s\<lparr>g_vSendQueue := g_vSendQueue s @ [bytes]\<rparr>) \<and>
   (status < 128 \<longrightarrow> sendDeviceMidi3 s status value1 value2 = s) \<and>
   (value1 > 127 \<and> value2 > 127 \<longrightarrow> sendDeviceMidi3 s status value1 value2 = s) \<and>
   (status \<ge> 128 \<and> value1 \<le> 127 \<and> value2 \<le> 127 \<longrightarrow>
      sendDeviceMidi3 s status value1 value2 =
        s\<lparr>g_vSendQueue := g_vSendQueue s @ [[status, value1, value2]]\<rparr>)"
  by (cases bytes) (auto simp add: sendDeviceMidi_def sendDeviceMidi3_def)

theorem message_construction_witness:
  "(0x7f :: byte) < 128 \<and> (128 :: byte) > 127 \<and> (255 :: byte) > 127 \<and>
   (0x90 :: byte) \<ge> 128 \<and> (96 :: byte) \<le> 127 \<and> (67 :: byte) \<le> 127 \<and>
   sendDeviceMidi started [0xf0, 0x00, 0x20, 0x29, 0x02, 0x0d, 0x0e, 0x01, 0xf7] =
     started\<lparr>g_vSendQueue := [[0xf0, 0x00, 0x20, 0x29, 0x02, 0x0d, 0x0e, 0x01, 0xf7]]\<rparr> \<and>
   sendDeviceMidi started [0x20, 0x90] = started \<and>
   sendDeviceMidi3 started 0x7f 1 2 = started \<and>
   sendDeviceMidi3 started 0x90 128 255 = started \<and>
   sendDeviceMidi3 started 0x90 96 67 = started\<lparr>g_vSendQueue := [[0x90, 96, 67]]\<rparr>"
  using
    message_construction
      [of started "[0xf0, 0x00, 0x20, 0x29, 0x02, 0x0d, 0x0e, 0x01, 0xf7]" "0x7f" 1 2]
    message_construction [of started "[0x20, 0x90]" "0x90" 128 255]
    message_construction [of started "[]" "0x90" 96 67]
  by (simp add: started_def initial_globals_def)

section \<open>Events of another size\<close>

text \<open>
  C10. An event whose size is not three bytes (a system-exclusive message, say) leaves
  the whole state and the host output buffer as they were: nothing is written to the
  host, nothing is sent over OSC and nothing is enqueued.
\<close>

theorem protocolHandler_ignores_other_sizes:
  "length ev \<noteq> 3 \<Longrightarrow> protocolHandler s (Some ev) out = (s, out)"
  by (simp add: protocolHandler_def)

theorem protocolHandler_ignores_other_sizes_witness:
  "length [0xf0, 0x00, 0x20, 0x29, 0x02, 0x0d, 0x0e, 0x01, 0xf7 :: byte] \<noteq> 3 \<and>
   protocolHandler launchkey_active (Some [0xf0, 0x00, 0x20, 0x29, 0x02, 0x0d, 0x0e, 0x01, 0xf7])
       \<lparr>capacity = 64, events = []\<rparr>
     = (launchkey_active, \<lparr>capacity = 64, events = []\<rparr>)"
  using protocolHandler_ignores_other_sizes
    [where ev = "[0xf0, 0x00, 0x20, 0x29, 0x02, 0x0d, 0x0e, 0x01, 0xf7]" and s = launchkey_active
       and out = "\<lparr>capacity = 64, events = []\<rparr>"]
  by simp

section \<open>The states of the examples\<close>

lemma launchkey_active_value:
  "launchkey_active =
     \<lparr> g_pJackClient = True, g_nInputProtocol = 0, g_nOutputProtocol = 0, g_nProtocol = 0,
       g_bShift = False, g_nPadColour = replicate 64 0, g_nCCoffset = 1, g_nMidiChannel = 0,
       g_vSendQueue =
         [[0x9f, 12, 127]] @
         map (\<lambda>n. [0x99, n, 79]) [40,41,42,43,44,45,46,47,48,49,50,51,36,37,38,39] @
         map (\<lambda>n. [0x90, n, 0]) [96,97,98,99,100,101,102,103,112,113,114,115,116,117,118,119] @
         [[0xbf, 9, 1]],
       osc_methods = [(''/sequence/status'', ''iiii''), (''smf'', ''i'')],
       osc_running = True,
       osc_sent =
         [(''/cuia/register'', [OscStr ''localhost'', OscInt 2001, OscStr ''/SEQUENCER/STATE'']),
          (''/cuia/register'', [OscStr ''localhost'', OscInt 2001, OscStr ''SMF''])] \<rparr>"
  by code_simp

lemma launchpad_active_value:
  "launchpad_active =
     \<lparr> g_pJackClient = True, g_nInputProtocol = 1, g_nOutputProtocol = 1, g_nProtocol = 1,
       g_bShift = False, g_nPadColour = replicate 64 0, g_nCCoffset = 0, g_nMidiChannel = 0,
       g_vSendQueue = [[0xf0,0x00,0x20,0x29,0x02,0x0d,0x00,0x7f,0xf7]],
       osc_methods = [(''/sequence/status'', ''iiii''), (''smf'', ''i'')],
       osc_running = True,
       osc_sent =
         [(''/cuia/register'', [OscStr ''localhost'', OscInt 2001, OscStr ''/SEQUENCER/STATE'']),
          (''/cuia/register'', [OscStr ''localhost'', OscInt 2001, OscStr ''SMF''])] \<rparr>"
  by code_simp

section \<open>Encoding a pad status\<close>

text \<open>Every note in the pad tables is a data byte, so \<open>sendDeviceMidi3\<close> keeps the message.\<close>

lemma sendDeviceMidi3_enqueues:
  "128 \<le> a \<Longrightarrow> b \<le> 127 \<Longrightarrow>
   sendDeviceMidi3 s a b c = s\<lparr>g_vSendQueue := g_vSendQueue s @ [[a, b, c]]\<rparr>"
  by (auto simp add: sendDeviceMidi3_def)

lemma session_pad_notes:
  "\<forall>x \<in> set g_nLKM3SessionPads. x \<le> 127"
  "\<forall>x \<in> set g_nLPM3SessionPads. x \<le> 127"
  "\<forall>x \<in> set (take 16 g_nDrumPads). x \<le> 127"
  by (simp_all add: g_nLKM3SessionPads_def g_nLPM3SessionPads_def g_nDrumPads_def)

lemma LKM3_note: "n < 16 \<Longrightarrow> g_nLKM3SessionPads ! n \<le> 127"
proof -
  assume "n < 16"
  then have "g_nLKM3SessionPads ! n \<in> set g_nLKM3SessionPads"
    by (intro nth_mem) (simp add: g_nLKM3SessionPads_def)
  with session_pad_notes(1) show ?thesis by blast
qed

lemma LPM3_note: "n < 64 \<Longrightarrow> g_nLPM3SessionPads ! n \<le> 127"
proof -
  assume "n < 64"
  then have "g_nLPM3SessionPads ! n \<in> set g_nLPM3SessionPads"
    by (intro nth_mem) (simp add: g_nLPM3SessionPads_def)
  with session_pad_notes(2) show ?thesis by blast
qed

lemma drum_note: "n < 16 \<Longrightarrow> g_nDrumPads ! n \<le> 127"
proof -
  assume n: "n < 16"
  then have "take 16 g_nDrumPads ! n \<in> set (take 16 g_nDrumPads)"
    by (intro nth_mem) (simp add: g_nDrumPads_def)
  with session_pad_notes(3) have "take 16 g_nDrumPads ! n \<le> 127" by blast
  with n show ?thesis by simp
qed


lemma sendPadStatusToDevice_rule:
  assumes labels: "distinct [STOPPED K, STARTING K, RESTARTING K, PLAYING K, STOPPING K, DISABLED K]"
    and pad: "(g_nProtocol s = DEVICE_LAUNCHKEY_MINI_MK3 K \<and> sequence < 16 \<and>
               pad = g_nLKM3SessionPads ! unat sequence) \<or>
              (\<not> (g_nProtocol s = DEVICE_LAUNCHKEY_MINI_MK3 K \<and> sequence < 16) \<and>
               g_nProtocol s = DEVICE_LAUNCHPAD_MINI_MK3 K \<and> sequence < 64 \<and>
               pad = g_nLPM3SessionPads ! unat sequence)"
    and code: "uint state = status_code K st"
  shows "sendPadStatusToDevice K s sequence state =
           s\<lparr>g_vSendQueue := g_vSendQueue s @ encode_rule st pad (g_nPadColour s ! unat sequence)\<rparr>"
proof -
  have pad_le: "pad \<le> 127"
    using pad by (auto simp add: word_less_nat_alt LKM3_note LPM3_note)
  have sel: "(if g_nProtocol s = DEVICE_LAUNCHKEY_MINI_MK3 K \<and> sequence < 16
            then Some (g_nLKM3SessionPads ! unat sequence)
            else if g_nProtocol s = DEVICE_LAUNCHPAD_MINI_MK3 K \<and> sequence < 64
            then Some (g_nLPM3SessionPads ! unat sequence)
            else None) = Some pad"
    using pad by auto
  have ne: "STOPPED K \<noteq> STARTING K" "STOPPED K \<noteq> RESTARTING K" "STOPPED K \<noteq> PLAYING K"
    "STOPPED K \<noteq> STOPPING K" "STOPPED K \<noteq> DISABLED K" "STARTING K \<noteq> PLAYING K"
    "STARTING K \<noteq> STOPPING K" "STARTING K \<noteq> DISABLED K" "RESTARTING K \<noteq> PLAYING K"
    "RESTARTING K \<noteq> STOPPING K" "RESTARTING K \<noteq> DISABLED K" "PLAYING K \<noteq> STOPPING K"
    "PLAYING K \<noteq> DISABLED K" "STOPPING K \<noteq> DISABLED K"
    using labels by simp_all
  show ?thesis
    unfolding sendPadStatusToDevice_def sel
    using code pad_le
    by (cases st) (simp_all add: ne ne [symmetric] sendDeviceMidi3_enqueues)
qed

lemma sendPadStatusToDevice_other_state:
  assumes "\<forall>st. uint state \<noteq> status_code K st"
  shows "sendPadStatusToDevice K s sequence state = s"
proof -
  from assms have "uint state \<noteq> status_code K Stopped" "uint state \<noteq> status_code K Starting"
    "uint state \<noteq> status_code K Restarting" "uint state \<noteq> status_code K Playing"
    "uint state \<noteq> status_code K Stopping" "uint state \<noteq> status_code K Disabled"
    by blast+
  then show ?thesis
    by (simp add: sendPadStatusToDevice_def split: option.splits)
qed


text \<open>
  C4. For a sequence with a session pad on the active device (below 16 on the Launchkey,
  below 64 on the Launchpad) and each of the six statuses, \<open>sendPadStatusToDevice\<close>
  appends exactly the envelopes of the encode rule to the queue and changes nothing
  else: Stopped gives \<open>0x90\<close> with the stored colour; Starting and Restarting give
  that and \<open>0x91\<close> with the starting colour; Playing gives \<open>0x92\<close> with the stored
  colour; Stopping gives \<open>0x90\<close> with the stored colour and \<open>0x91\<close> with the
  stopping colour; Disabled gives \<open>0x90\<close> with colour 0. A state value that is none
  of the six changes nothing. The labels are pairwise different, as the \<open>switch\<close>
  requires.
\<close>

theorem sendPadStatusToDevice_encode:
  assumes "distinct [STOPPED K, STARTING K, RESTARTING K, PLAYING K, STOPPING K, DISABLED K]"
    and "(g_nProtocol s = DEVICE_LAUNCHKEY_MINI_MK3 K \<and> sequence < 16 \<and>
          pad = g_nLKM3SessionPads ! unat sequence) \<or>
         (\<not> (g_nProtocol s = DEVICE_LAUNCHKEY_MINI_MK3 K \<and> sequence < 16) \<and>
          g_nProtocol s = DEVICE_LAUNCHPAD_MINI_MK3 K \<and> sequence < 64 \<and>
          pad = g_nLPM3SessionPads ! unat sequence)"
  shows "(uint state = status_code K st \<longrightarrow>
            sendPadStatusToDevice K s sequence state =
              s\<lparr>g_vSendQueue :=
                  g_vSendQueue s @ encode_rule st pad (g_nPadColour s ! unat sequence)\<rparr>) \<and>
         ((\<forall>st'. uint state \<noteq> status_code K st') \<longrightarrow>
            sendPadStatusToDevice K s sequence state = s)"
  using sendPadStatusToDevice_rule [OF assms] sendPadStatusToDevice_other_state by blast

text \<open>
  Sequence 3 on the Launchkey is the pad with note 99; Playing appends \<open>[0x92, 99, 0]\<close>,
  and the state value 9, which is no label, appends nothing.
\<close>

theorem sendPadStatusToDevice_encode_witness:
  "distinct [STOPPED example_constants, STARTING example_constants, RESTARTING example_constants,
             PLAYING example_constants, STOPPING example_constants, DISABLED example_constants] \<and>
   g_nProtocol launchkey_active = DEVICE_LAUNCHKEY_MINI_MK3 example_constants \<and>
   (3 :: byte) < 16 \<and> g_nLKM3SessionPads ! unat (3 :: byte) = 99 \<and>
   uint (3 :: 16 word) = status_code example_constants Playing \<and>
   sendPadStatusToDevice example_constants launchkey_active 3 3 =
     launchkey_active\<lparr>g_vSendQueue := g_vSendQueue launchkey_active @ [[0x92, 99, 0]]\<rparr> \<and>
   sendPadStatusToDevice example_constants launchkey_active 3 9 = launchkey_active"
proof -
  have labels: "distinct [STOPPED example_constants, STARTING example_constants,
      RESTARTING example_constants, PLAYING example_constants, STOPPING example_constants,
      DISABLED example_constants]"
    by (simp add: example_constants_def)
  have pad: "g_nProtocol launchkey_active = DEVICE_LAUNCHKEY_MINI_MK3 example_constants \<and>
      (3 :: byte) < 16 \<and> (99 :: byte) = g_nLKM3SessionPads ! unat (3 :: byte)"
    by (simp add: launchkey_active_value example_constants_def g_nLKM3SessionPads_def)
  have playing: "uint (3 :: 16 word) = status_code example_constants Playing"
    by (simp add: example_constants_def)
  have other: "\<forall>st'. uint (9 :: 16 word) \<noteq> status_code example_constants st'"
  proof
    fix st' show "uint (9 :: 16 word) \<noteq> status_code example_constants st'"
      by (cases st') (simp_all add: example_constants_def)
  qed
  have colour: "g_nPadColour launchkey_active ! unat (3 :: byte) = 0"
    by (simp add: launchkey_active_value)
  from sendPadStatusToDevice_encode [OF labels disjI1 [OF pad], of 3 Playing] playing colour
  have one: "sendPadStatusToDevice example_constants launchkey_active 3 3 =
     launchkey_active\<lparr>g_vSendQueue := g_vSendQueue launchkey_active @ [[0x92, 99, 0]]\<rparr>"
    by simp
  from sendPadStatusToDevice_encode [OF labels disjI1 [OF pad], of 9 Playing] other
  have two: "sendPadStatusToDevice example_constants launchkey_active 3 9 = launchkey_active"
    by blast
  from labels pad playing one two show ?thesis by simp
qed

section \<open>The enable sequence\<close>

lemma fold_sendDeviceMidi3:
  assumes "128 \<le> a" "\<forall>x \<in> set xs. f x \<le> 127"
  shows "fold (\<lambda>pad t. sendDeviceMidi3 t a (f pad) c) xs s =
           s\<lparr>g_vSendQueue := g_vSendQueue s @ map (\<lambda>pad. [a, f pad, c]) xs\<rparr>"
  using assms by (induction xs arbitrary: s) (simp_all add: sendDeviceMidi3_enqueues)

lemma byte_of_pad: "pad < 64 \<Longrightarrow> unat (of_nat pad :: byte) = pad"
  by (simp add: unat_of_nat)

lemma sendPadStatusToDevice_stopped:
  assumes "g_nProtocol s = DEVICE_LAUNCHKEY_MINI_MK3 K" "0 \<le> STOPPED K" "STOPPED K < 65536"
    "pad < 16"
  shows "sendPadStatusToDevice K s (of_nat pad) (word_of_int (STOPPED K)) =
           s\<lparr>g_vSendQueue := g_vSendQueue s @ [[0x90, g_nLKM3SessionPads ! pad, g_nPadColour s ! pad]]\<rparr>"
proof -
  have u: "unat (of_nat pad :: byte) = pad" using assms(4) by (simp add: byte_of_pad)
  then have lt: "(of_nat pad :: byte) < 16" by (simp add: word_less_nat_alt assms(4))
  have st: "uint (word_of_int (STOPPED K) :: 16 word) = STOPPED K"
    using assms(2,3) by (simp add: uint_word_of_int)
  show ?thesis
    using assms(1,4) lt
    by (simp add: sendPadStatusToDevice_def u st sendDeviceMidi3_enqueues LKM3_note)
qed

lemma fold_sendPadStatusToDevice_stopped:
  assumes "g_nProtocol s = DEVICE_LAUNCHKEY_MINI_MK3 K" "0 \<le> STOPPED K" "STOPPED K < 65536"
    "\<forall>pad \<in> set xs. pad < 16"
  shows "fold (\<lambda>pad t. sendPadStatusToDevice K t (of_nat pad) (word_of_int (STOPPED K))) xs s =
           s\<lparr>g_vSendQueue := g_vSendQueue s @
               map (\<lambda>pad. [0x90, g_nLKM3SessionPads ! pad, g_nPadColour s ! pad]) xs\<rparr>"
  using assms
  by (induction xs arbitrary: s) (simp_all add: sendPadStatusToDevice_stopped)

lemma enableDevice_launchkey:
  assumes "g_nProtocol s = 0" "g_nInputProtocol s = 0" "g_nOutputProtocol s = 0"
    "DEVICE_LAUNCHKEY_MINI_MK3 K = 0" "0 \<le> STOPPED K" "STOPPED K < 65536"
  shows "enableDevice K s True =
           (osc_subscribe s)
             \<lparr>g_nCCoffset := 1,
              g_vSendQueue := g_vSendQueue s @ [[0x9f, 12, 127]] @
                map (\<lambda>pad. [0x99, g_nDrumPads ! pad, g_nDrumColour]) [0..<16] @
                map (\<lambda>pad. [0x90, g_nLKM3SessionPads ! pad, g_nPadColour s ! pad]) [0..<16] @
                [[0xbf, 9, 1]]\<rparr>"
proof -
  have c: "isDeviceConnected s = (True, s)"
    using assms(1-3) by (simp add: isDeviceConnected_def)
  define s3 where "s3 = sendDeviceMidi3 (osc_subscribe s) 0x9f 12 127"
  have s3: "s3 = (osc_subscribe s)\<lparr>g_vSendQueue := g_vSendQueue s @ [[0x9f, 12, 127]]\<rparr>"
    by (simp add: s3_def sendDeviceMidi3_enqueues)
  define s4 where "s4 = fold (\<lambda>pad t. sendDeviceMidi3 t 0x99 (g_nDrumPads ! pad) g_nDrumColour) [0..<16] s3"
  have s4: "s4 = s3\<lparr>g_vSendQueue := g_vSendQueue s3 @
                map (\<lambda>pad. [0x99, g_nDrumPads ! pad, g_nDrumColour]) [0..<16]\<rparr>"
    unfolding s4_def by (rule fold_sendDeviceMidi3) (simp_all add: drum_note)
  define s5 where "s5 = fold (\<lambda>pad t. sendPadStatusToDevice K t (of_nat pad)
                                               (word_of_int (STOPPED K))) [0..<16] s4"
  have p4: "g_nProtocol s4 = DEVICE_LAUNCHKEY_MINI_MK3 K"
    using assms(1,4) by (simp add: s4 s3)
  have s5: "s5 = s4\<lparr>g_vSendQueue := g_vSendQueue s4 @
               map (\<lambda>pad. [0x90, g_nLKM3SessionPads ! pad, g_nPadColour s4 ! pad]) [0..<16]\<rparr>"
    unfolding s5_def using p4 assms(5,6) by (intro fold_sendPadStatusToDevice_stopped) simp_all
  have k: "selectKnobs s5 1 = s5\<lparr>g_nCCoffset := 1, g_vSendQueue := g_vSendQueue s5 @ [[0xbf, 9, 1]]\<rparr>"
    using assms(1-3)
    by (simp add: selectKnobs_def isDeviceConnected_def s5 s4 s3 sendDeviceMidi3_enqueues)
  have "enableDevice K s True = selectKnobs s5 1"
    using assms(1,4) by (simp add: enableDevice_def c s5_def s4_def s3_def)
  also have "\<dots> = (osc_subscribe s)
             \<lparr>g_nCCoffset := 1,
              g_vSendQueue := g_vSendQueue s @ [[0x9f, 12, 127]] @
                map (\<lambda>pad. [0x99, g_nDrumPads ! pad, g_nDrumColour]) [0..<16] @
                map (\<lambda>pad. [0x90, g_nLKM3SessionPads ! pad, g_nPadColour s ! pad]) [0..<16] @
                [[0xbf, 9, 1]]\<rparr>"
    unfolding k by (simp add: s5 s4 s3)
  finally show ?thesis .
qed

lemma enableDevice_launchpad:
  assumes "g_nProtocol s = DEVICE_LAUNCHPAD_MINI_MK3 K"
    "g_nInputProtocol s = g_nProtocol s" "g_nOutputProtocol s = g_nProtocol s"
    "g_nProtocol s \<noteq> - 1" "DEVICE_LAUNCHPAD_MINI_MK3 K \<noteq> DEVICE_LAUNCHKEY_MINI_MK3 K"
  shows "enableDevice K s True =
           (osc_subscribe s)
             \<lparr>g_vSendQueue := g_vSendQueue s @ [[0xf0,0x00,0x20,0x29,0x02,0x0d,0x00,0x7f,0xf7]]\<rparr>"
proof -
  have c: "isDeviceConnected s = (True, s)"
    using assms(2-4) by (simp add: isDeviceConnected_def)
  show ?thesis
    using assms(1,5) by (simp add: enableDevice_def c sendDeviceMidi_def)
qed


text \<open>
  The Launchpad connected on both ports: its activation has enqueued the one
  system-exclusive message that selects the programmer layout, no message for a drum
  pad or a session pad, and has not selected a bank.
\<close>

theorem launchpad_enable_no_resync:
  "g_nProtocol launchpad_active = DEVICE_LAUNCHPAD_MINI_MK3 example_constants \<and>
   g_vSendQueue launchpad_active = [[0xf0,0x00,0x20,0x29,0x02,0x0d,0x00,0x7f,0xf7]] \<and>
   g_nCCoffset launchpad_active = g_nCCoffset started"
  by (simp add: launchpad_active_value example_constants_def started_def initial_globals_def)

text \<open>
  C9, as amended. When the Launchkey (protocol 0) is the active device on both ports,
  the enable sequence subscribes to the control bus and enqueues, in this order: the
  session-mode message \<open>[0x9f, 12, 127]\<close>; the idle colour for each of the 16 drum
  pads; the Stopped envelope \<open>[0x90, note, stored colour]\<close> for each of the 16
  session pads, one per pad and each pad index once; and the confirmation
  \<open>[0xbf, 9, 1]\<close> of bank 1, which it also stores in \<open>g_nCCoffset\<close>. When the
  Launchpad is the active device, the enable sequence subscribes to the control bus
  and enqueues only the message that selects the programmer layout.
\<close>

theorem enableDevice_sequence:
  "(g_nProtocol s = 0 \<and> g_nInputProtocol s = 0 \<and> g_nOutputProtocol s = 0 \<and>
    DEVICE_LAUNCHKEY_MINI_MK3 K = 0 \<and> 0 \<le> STOPPED K \<and> STOPPED K < 65536 \<longrightarrow>
      enableDevice K s True =
        (osc_subscribe s)
          \<lparr>g_nCCoffset := 1,
           g_vSendQueue := g_vSendQueue s @ [[0x9f, 12, 127]] @
             map (\<lambda>pad. [0x99, g_nDrumPads ! pad, g_nDrumColour]) [0..<16] @
             map (\<lambda>pad. [0x90, g_nLKM3SessionPads ! pad, g_nPadColour s ! pad]) [0..<16] @
             [[0xbf, 9, 1]]\<rparr>) \<and>
   (g_nProtocol s = DEVICE_LAUNCHPAD_MINI_MK3 K \<and>
    g_nInputProtocol s = g_nProtocol s \<and> g_nOutputProtocol s = g_nProtocol s \<and>
    g_nProtocol s \<noteq> - 1 \<and> DEVICE_LAUNCHPAD_MINI_MK3 K \<noteq> DEVICE_LAUNCHKEY_MINI_MK3 K \<longrightarrow>
      enableDevice K s True =
        (osc_subscribe s)
          \<lparr>g_vSendQueue := g_vSendQueue s @ [[0xf0,0x00,0x20,0x29,0x02,0x0d,0x00,0x7f,0xf7]]\<rparr>)"
  using enableDevice_launchkey [of s K] enableDevice_launchpad [of s K] by blast

text \<open>
  From the state after \<open>init\<close> with either device recorded on both ports, the enable
  sequence gives the state that the two connection callbacks reach.
\<close>

theorem enableDevice_sequence_witness:
  "DEVICE_LAUNCHKEY_MINI_MK3 example_constants = 0 \<and>
   DEVICE_LAUNCHPAD_MINI_MK3 example_constants = 1 \<and>
   0 \<le> STOPPED example_constants \<and> STOPPED example_constants < 65536 \<and>
   g_nProtocol (started\<lparr>g_nInputProtocol := 0, g_nOutputProtocol := 0, g_nProtocol := 0\<rparr>) = 0 \<and>
   g_nProtocol (started\<lparr>g_nInputProtocol := 1, g_nOutputProtocol := 1, g_nProtocol := 1\<rparr>)
     = DEVICE_LAUNCHPAD_MINI_MK3 example_constants \<and>
   enableDevice example_constants
     (started\<lparr>g_nInputProtocol := 0, g_nOutputProtocol := 0, g_nProtocol := 0\<rparr>) True
     = launchkey_active \<and>
   enableDevice example_constants
     (started\<lparr>g_nInputProtocol := 1, g_nOutputProtocol := 1, g_nProtocol := 1\<rparr>) True
     = launchpad_active"
proof -
  have K: "DEVICE_LAUNCHKEY_MINI_MK3 example_constants = 0"
    "DEVICE_LAUNCHPAD_MINI_MK3 example_constants = 1"
    "0 \<le> STOPPED example_constants" "STOPPED example_constants < 65536"
    by (simp_all add: example_constants_def)
  have drums: "map (\<lambda>pad. [0x99, g_nDrumPads ! pad, g_nDrumColour]) [0..<16] =
      map (\<lambda>n. [0x99, n, 79]) [40,41,42,43,44,45,46,47,48,49,50,51,36,37,38,39]"
    by code_simp
  have pads: "map (\<lambda>pad. [0x90, g_nLKM3SessionPads ! pad, replicate 64 (0 :: byte) ! pad]) [0..<16] =
      map (\<lambda>n. [0x90, n, 0]) [96,97,98,99,100,101,102,103,112,113,114,115,116,117,118,119]"
    by code_simp
  from enableDevice_sequence
    [of "started\<lparr>g_nInputProtocol := 0, g_nOutputProtocol := 0, g_nProtocol := 0\<rparr>"
        example_constants] K
  have lk: "enableDevice example_constants
     (started\<lparr>g_nInputProtocol := 0, g_nOutputProtocol := 0, g_nProtocol := 0\<rparr>) True
     = launchkey_active"
    unfolding launchkey_active_value
    by (simp add: started_def initial_globals_def osc_subscribe_def osc_send_def drums pads
        del: upt_rec_numeral)
  from enableDevice_sequence
    [of "started\<lparr>g_nInputProtocol := 1, g_nOutputProtocol := 1, g_nProtocol := 1\<rparr>"
        example_constants] K
  have lp: "enableDevice example_constants
     (started\<lparr>g_nInputProtocol := 1, g_nOutputProtocol := 1, g_nProtocol := 1\<rparr>) True
     = launchpad_active"
    unfolding launchpad_active_value
    by (simp add: started_def initial_globals_def osc_subscribe_def osc_send_def)
  from K lk lp show ?thesis by simp
qed

section \<open>Indices without a pad\<close>

text \<open>
  The Launchkey is active and has 16 session pads; a status notification for sequence 20
  changes the stored colour of pad 20 from 0 to 35.
\<close>

theorem launchkey_status_stores_colour:
  "g_nProtocol launchkey_active = DEVICE_LAUNCHKEY_MINI_MK3 example_constants \<and>
   \<not> (ucast (20 :: 32 word) :: byte) < 16 \<and>
   g_nPadColour launchkey_active ! 20 = 0 \<and>
   g_nPadColour (onOscStatus example_constants launchkey_active [0, 20, 0, 1]) ! 20 = 35"
  by (simp add: launchkey_active_value example_constants_def onOscStatus_def g_nPadColours_def)

lemma sendPadStatusToDevice_no_pad:
  assumes "\<not> (g_nProtocol s = DEVICE_LAUNCHKEY_MINI_MK3 K \<and> sequence < 16)"
    and "\<not> (g_nProtocol s = DEVICE_LAUNCHPAD_MINI_MK3 K \<and> sequence < 64)"
  shows "sendPadStatusToDevice K s sequence state = s"
proof -
  have sel: "(if g_nProtocol s = DEVICE_LAUNCHKEY_MINI_MK3 K \<and> sequence < 16
            then Some (g_nLKM3SessionPads ! unat sequence)
            else if g_nProtocol s = DEVICE_LAUNCHPAD_MINI_MK3 K \<and> sequence < 64
            then Some (g_nLPM3SessionPads ! unat sequence)
            else None) = None"
    using assms by simp
  show ?thesis unfolding sendPadStatusToDevice_def sel by simp
qed

text \<open>
  C8, as amended. A status notification whose sequence index, as the byte the handler
  reads it into, is above 63 changes nothing. \<open>sendPadStatusToDevice\<close> for a sequence
  without a session pad on the active device (16 or more on the Launchkey, 64 or more on
  the Launchpad, any sequence when neither is active) changes nothing. A status
  notification with an index up to 63 that has no session pad on the active device
  enqueues nothing, but stores the colour of the group in the table of 64 colours.
\<close>

theorem out_of_range_pad:
  "((ucast (pArgs ! 1) :: byte) > 63 \<longrightarrow> onOscStatus K s pArgs = s) \<and>
   (\<not> (g_nProtocol s = DEVICE_LAUNCHKEY_MINI_MK3 K \<and> sequence < 16) \<and>
    \<not> (g_nProtocol s = DEVICE_LAUNCHPAD_MINI_MK3 K \<and> sequence < 64) \<longrightarrow>
      sendPadStatusToDevice K s sequence state = s) \<and>
   (length pArgs \<ge> 4 \<and> (ucast (pArgs ! 1) :: byte) \<le> 63 \<and>
    \<not> (g_nProtocol s = DEVICE_LAUNCHKEY_MINI_MK3 K \<and> (ucast (pArgs ! 1) :: byte) < 16) \<and>
    g_nProtocol s \<noteq> DEVICE_LAUNCHPAD_MINI_MK3 K \<longrightarrow>
      onOscStatus K s pArgs =
        s\<lparr>g_nPadColour :=
            (g_nPadColour s)[unat (ucast (pArgs ! 1) :: byte) :=
               g_nPadColours ! (unat (ucast (pArgs ! 3) :: byte) mod 16)]\<rparr>)"
  by (auto simp add: onOscStatus_def Let_def sendPadStatusToDevice_no_pad)

theorem out_of_range_pad_witness:
  "(ucast (64 :: 32 word) :: byte) > 63 \<and>
   onOscStatus example_constants launchpad_active [0, 64, 0, 1] = launchpad_active \<and>
   g_nProtocol launchkey_active = DEVICE_LAUNCHKEY_MINI_MK3 example_constants \<and>
   g_nProtocol launchkey_active \<noteq> DEVICE_LAUNCHPAD_MINI_MK3 example_constants \<and>
   sendPadStatusToDevice example_constants launchkey_active 16 0 = launchkey_active \<and>
   onOscStatus example_constants launchkey_active [0, 20, 0, 1] =
     launchkey_active\<lparr>g_nPadColour := (g_nPadColour launchkey_active)[20 := 35]\<rparr>"
proof -
  have a: "(ucast (64 :: 32 word) :: byte) > 63" by simp
  have p: "g_nProtocol launchkey_active = DEVICE_LAUNCHKEY_MINI_MK3 example_constants"
    "g_nProtocol launchkey_active \<noteq> DEVICE_LAUNCHPAD_MINI_MK3 example_constants"
    by (simp_all add: launchkey_active_value example_constants_def)
  from out_of_range_pad [of "[0, 64, 0, 1]" example_constants launchpad_active 0 0] a
  have one: "onOscStatus example_constants launchpad_active [0, 64, 0, 1] = launchpad_active"
    by simp
  from out_of_range_pad [of "[0, 20, 0, 1]" example_constants launchkey_active 16 0] p
  have two: "sendPadStatusToDevice example_constants launchkey_active 16 0 = launchkey_active"
    and three: "onOscStatus example_constants launchkey_active [0, 20, 0, 1] =
     launchkey_active\<lparr>g_nPadColour := (g_nPadColour launchkey_active)[20 := 35]\<rparr>"
    by (simp_all add: g_nPadColours_def)
  from a p one two three show ?thesis by simp
qed

section \<open>Disconnection\<close>

text \<open>
  C3 at the Launchkey active on both ports, when it leaves the device input port: the
  active protocol goes from 0 to unset, and nothing else happens. The queue has no
  session-mode-off message \<open>[0x9f, 12, 0]\<close>, the two OSC methods are still registered,
  the server still runs and no \<open>/cuia/unregister\<close> message has been sent.
  \<open>enableDevice\<close> has the branch that would do all this for \<open>enable = false\<close>, but
  \<open>initLaunchkey\<close> only ever calls it with \<open>true\<close>.
\<close>

theorem disconnect_skips_disable_sequence:
  "g_nProtocol launchkey_active = 0 \<and>
   g_nProtocol (onJackConnect example_constants launchkey_active
                  (input_notification ''Launchkey-Mini-MK3-MIDI-2'' False)) = - 1 \<and>
   g_vSendQueue (onJackConnect example_constants launchkey_active
                  (input_notification ''Launchkey-Mini-MK3-MIDI-2'' False))
     = g_vSendQueue launchkey_active \<and>
   osc_methods (onJackConnect example_constants launchkey_active
                  (input_notification ''Launchkey-Mini-MK3-MIDI-2'' False))
     = [(''/sequence/status'', ''iiii''), (''smf'', ''i'')] \<and>
   osc_running (onJackConnect example_constants launchkey_active
                  (input_notification ''Launchkey-Mini-MK3-MIDI-2'' False)) \<and>
   osc_sent (onJackConnect example_constants launchkey_active
                  (input_notification ''Launchkey-Mini-MK3-MIDI-2'' False))
     = osc_sent launchkey_active"
  by code_simp

section \<open>Selecting a bank\<close>

text \<open>
  The Launchkey is active with \<open>g_nCCoffset = 1\<close>. The decoded controller 9 with value
  7 is not rejected: it sets \<open>g_nCCoffset\<close> to 48. With value 3 it enqueues no
  confirmation.
\<close>

theorem decoded_bank_not_checked:
  "g_nProtocol launchkey_active = 0 \<and> g_nCCoffset launchkey_active = 1 \<and>
   g_nCCoffset (fst (protocolHandler launchkey_active (Some [0xbf, 9, 7])
                       \<lparr>capacity = 64, events = []\<rparr>)) = 48 \<and>
   g_vSendQueue (fst (protocolHandler launchkey_active (Some [0xbf, 9, 3])
                       \<lparr>capacity = 64, events = []\<rparr>)) = g_vSendQueue launchkey_active"
  by (simp add: launchkey_active_value protocolHandler_def)

lemma selectKnobs_rejects:
  "7 \<le> bank \<Longrightarrow>
   g_nCCoffset (selectKnobs s bank) = g_nCCoffset s \<and>
   g_vSendQueue (selectKnobs s bank) = g_vSendQueue s"
  by (simp add: selectKnobs_def isDeviceConnected_def Let_def not_less [symmetric])

lemma selectKnobs_selects:
  assumes "bank < 7" "g_nProtocol s = 0" "g_nInputProtocol s = 0" "g_nOutputProtocol s = 0"
  shows "(selectKnobs s bank)\<lparr>g_nCCoffset := g_nCCoffset s\<rparr> =
           s\<lparr>g_vSendQueue := g_vSendQueue s @ [[0xbf, 9, ucast bank]]\<rparr>"
  using assms by (simp add: selectKnobs_def isDeviceConnected_def sendDeviceMidi3_enqueues)

text \<open>
  The two paths do not store the same offset for a bank: for bank 3 \<open>selectKnobs\<close>
  stores 3, the decoder stores 16. The decoder's value is the one that fits the comment
  on \<open>g_nCCoffset\<close> (the base is controller 21 for bank 1) and the range of eight
  controllers per bank that the decoder prints, so the statement below leaves open
  what \<open>selectKnobs\<close> stores.
\<close>

lemma selectKnobs_offset_disagrees_with_decoder:
  "g_nCCoffset (selectKnobs launchkey_active 3) = 3 \<and>
   g_nCCoffset (fst (protocolHandler launchkey_active (Some [0xbf, 9, 3])
                       \<lparr>capacity = 64, events = []\<rparr>)) = 16"
  by (simp add: launchkey_active_value protocolHandler_def selectKnobs_def
      isDeviceConnected_def sendDeviceMidi3_def)

lemma protocolHandler_bank:
  assumes "g_nProtocol s = 0" "b0 AND 0xF0 = 0xb0"
  shows "protocolHandler s (Some [b0, 9, b2]) out = (s\<lparr>g_nCCoffset := 8 * (uint b2 - 1)\<rparr>, out)"
  using assms by (simp add: protocolHandler_def Let_def)

text \<open>
  C5, as amended. \<open>selectKnobs\<close> with a bank of 7 or more leaves \<open>g_nCCoffset\<close> and
  the queue as they are. With a bank below 7 and the Launchkey active on both ports it
  enqueues the one envelope \<open>[0xbf, 9, bank]\<close> and changes nothing else but
  \<open>g_nCCoffset\<close>. The decoded controller 9 from the device sets \<open>g_nCCoffset\<close> to
  \<open>8 * (value - 1)\<close> for every value, and does nothing else: no range check and no
  envelope.
\<close>

theorem bank_selection:
  "(7 \<le> bank \<longrightarrow>
      g_nCCoffset (selectKnobs s bank) = g_nCCoffset s \<and>
      g_vSendQueue (selectKnobs s bank) = g_vSendQueue s) \<and>
   (bank < 7 \<and> g_nProtocol s = 0 \<and> g_nInputProtocol s = 0 \<and> g_nOutputProtocol s = 0 \<longrightarrow>
      (selectKnobs s bank)\<lparr>g_nCCoffset := g_nCCoffset s\<rparr> =
        s\<lparr>g_vSendQueue := g_vSendQueue s @ [[0xbf, 9, ucast bank]]\<rparr>) \<and>
   (g_nProtocol s = 0 \<and> b0 AND 0xF0 = 0xb0 \<longrightarrow>
      protocolHandler s (Some [b0, 9, b2]) out = (s\<lparr>g_nCCoffset := 8 * (uint b2 - 1)\<rparr>, out))"
  using selectKnobs_rejects [of bank s] selectKnobs_selects [of bank s]
    protocolHandler_bank [of s b0 b2 out]
  by blast

theorem bank_selection_witness:
  "g_nProtocol launchkey_active = 0 \<and> g_nInputProtocol launchkey_active = 0 \<and>
   g_nOutputProtocol launchkey_active = 0 \<and> g_nCCoffset launchkey_active = 1 \<and>
   (7 :: 32 word) \<le> 7 \<and> (3 :: 32 word) < 7 \<and> (0xbf :: byte) AND 0xF0 = 0xb0 \<and>
   g_nCCoffset (selectKnobs launchkey_active 7) = 1 \<and>
   g_vSendQueue (selectKnobs launchkey_active 7) = g_vSendQueue launchkey_active \<and>
   (selectKnobs launchkey_active 3)\<lparr>g_nCCoffset := 1\<rparr> =
     launchkey_active\<lparr>g_vSendQueue := g_vSendQueue launchkey_active @ [[0xbf, 9, 3]]\<rparr> \<and>
   protocolHandler launchkey_active (Some [0xbf, 9, 3]) \<lparr>capacity = 64, events = []\<rparr> =
     (launchkey_active\<lparr>g_nCCoffset := 16\<rparr>, \<lparr>capacity = 64, events = []\<rparr>)"
proof -
  have s: "g_nProtocol launchkey_active = 0" "g_nInputProtocol launchkey_active = 0"
    "g_nOutputProtocol launchkey_active = 0" "g_nCCoffset launchkey_active = 1"
    by (simp_all add: launchkey_active_value)
  have m: "(0xbf :: byte) AND 0xF0 = 0xb0" by simp
  from bank_selection [of 7 launchkey_active "0xbf" 3 "\<lparr>capacity = 64, events = []\<rparr>"] s
  have one: "g_nCCoffset (selectKnobs launchkey_active 7) = 1"
    "g_vSendQueue (selectKnobs launchkey_active 7) = g_vSendQueue launchkey_active"
    by simp_all
  from bank_selection [of 3 launchkey_active "0xbf" 3 "\<lparr>capacity = 64, events = []\<rparr>"] s m
  have two: "(selectKnobs launchkey_active 3)\<lparr>g_nCCoffset := 1\<rparr> =
     launchkey_active\<lparr>g_vSendQueue := g_vSendQueue launchkey_active @ [[0xbf, 9, 3]]\<rparr>"
    and three: "protocolHandler launchkey_active (Some [0xbf, 9, 3]) \<lparr>capacity = 64, events = []\<rparr> =
     (launchkey_active\<lparr>g_nCCoffset := 16\<rparr>, \<lparr>capacity = 64, events = []\<rparr>)"
    by simp_all
  from s m one two three show ?thesis by simp
qed

section \<open>Decoding with and without shift\<close>

lemma launchkey_bank_127_value: "launchkey_bank_127 = launchkey_active\<lparr>g_nCCoffset := 1008\<rparr>"
  unfolding launchkey_bank_127_def
  by (simp add: protocolHandler_bank launchkey_active_value)

text \<open>
  After the device has sent controller 9 with value 127, \<open>g_nCCoffset\<close> is 1008, and
  knob 21 is forwarded to the host as controller 5, which is not \<open>21 + 1008\<close>. And the
  release of the play button (value 0) does nothing, with shift held or not.
\<close>

theorem knob_controller_truncated:
  "g_nProtocol launchkey_bank_127 = 0 \<and> g_nCCoffset launchkey_bank_127 = 1008 \<and>
   \<not> g_bShift launchkey_bank_127 \<and>
   events (snd (protocolHandler launchkey_bank_127 (Some [0xb0, 21, 5])
                  \<lparr>capacity = 64, events = []\<rparr>)) = [[0xb0, 5, 5]] \<and>
   uint (5 :: byte) \<noteq> uint (21 :: byte) + g_nCCoffset launchkey_bank_127 \<and>
   protocolHandler (launchkey_active\<lparr>g_bShift := False\<rparr>) (Some [0xb0, 115, 0])
       \<lparr>capacity = 64, events = []\<rparr>
     = (launchkey_active\<lparr>g_bShift := False\<rparr>, \<lparr>capacity = 64, events = []\<rparr>) \<and>
   protocolHandler (launchkey_active\<lparr>g_bShift := True\<rparr>) (Some [0xb0, 115, 0])
       \<lparr>capacity = 64, events = []\<rparr>
     = (launchkey_active\<lparr>g_bShift := True\<rparr>, \<lparr>capacity = 64, events = []\<rparr>)"
  by (simp add: launchkey_bank_127_value launchkey_active_value protocolHandler_def
      sendMidi_def jack_midi_event_reserve_def buffer_used_def write_event_def)

lemma button_unshifted:
  assumes "g_nProtocol s = 0" "b0 AND 0xF0 = 0xb0" "\<not> g_bShift s" "b2 \<noteq> 0"
  shows "protocolHandler s (Some [b0, 104, b2]) out = (osc_send s ''/cuia/SWITCH_SELECT_SHORT'' [], out)"
    and "protocolHandler s (Some [b0, 105, b2]) out = (osc_send s ''/cuia/SWITCH_BACK_SHORT'' [], out)"
    and "protocolHandler s (Some [b0, 115, b2]) out = (osc_send s ''/cuia/TOGGLE_MIDI_PLAY'' [], out)"
    and "protocolHandler s (Some [b0, 117, b2]) out = (osc_send s ''/cuia/TOGGLE_MIDI_RECORD'' [], out)"
  using assms by (simp_all add: protocolHandler_def)

lemma button_shifted:
  assumes "g_nProtocol s = 0" "b0 AND 0xF0 = 0xb0" "g_bShift s" "b2 \<noteq> 0"
  shows "protocolHandler s (Some [b0, 104, b2]) out = (osc_send s ''/cuia/BACK_UP'' [], out)"
    and "protocolHandler s (Some [b0, 105, b2]) out = (osc_send s ''/cuia/BACK_DOWN'' [], out)"
    and "protocolHandler s (Some [b0, 115, b2]) out = (osc_send s ''/cuia/TOGGLE_AUDIO_PLAY'' [], out)"
    and "protocolHandler s (Some [b0, 117, b2]) out = (osc_send s ''/cuia/TOGGLE_AUDIO_RECORD'' [], out)"
  using assms by (simp_all add: protocolHandler_def)

lemma button_released:
  assumes "g_nProtocol s = 0" "b0 AND 0xF0 = 0xb0"
  shows "protocolHandler s (Some [b0, 104, 0]) out = (s, out)"
    and "protocolHandler s (Some [b0, 105, 0]) out = (s, out)"
    and "protocolHandler s (Some [b0, 115, 0]) out = (s, out)"
    and "protocolHandler s (Some [b0, 117, 0]) out = (s, out)"
  using assms by (simp_all add: protocolHandler_def)

lemma knob_range: "20 < b1 \<Longrightarrow> b1 < 29 \<Longrightarrow>
   b1 \<noteq> 9 \<and> b1 \<noteq> 108 \<and> b1 \<noteq> 104 \<and> b1 \<noteq> 105 \<and> b1 \<noteq> 103 \<and> b1 \<noteq> 102 \<and> b1 \<noteq> (115 :: byte)"
  by auto

lemma knob_forwarded:
  assumes "g_nProtocol s = 0" "b0 AND 0xF0 = 0xb0" "20 < b1" "b1 < 29"
  shows "protocolHandler s (Some [b0, b1, b2]) out =
           (s, sendMidi out (uint ((0xb0 :: byte) OR g_nMidiChannel s))
                 (uint b1 + g_nCCoffset s + (if g_bShift s then 40 else 0)) (uint b2))"
  using assms knob_range [OF assms(3,4)] by (simp add: protocolHandler_def)

lemma sendMidi_bytes:
  "jack_midi_event_reserve out 3 \<Longrightarrow>
   sendMidi out (uint (st :: byte)) c (uint (v :: byte)) = write_event out [st, word_of_int c, v]"
  by (simp add: sendMidi_def)

lemma sendMidi_full:
  "\<not> jack_midi_event_reserve out 3 \<Longrightarrow> sendMidi out a b c = out"
  by (simp add: sendMidi_def)

lemma controller_byte: "uint (word_of_int c :: byte) = c mod 256"
  by (simp add: uint_word_of_int)


lemma channel_nibble:
  assumes "(ch :: byte) < 16"
  shows "(0xb0 OR ch) AND 0x0F = ch" and "(0xb0 OR ch) AND 0xF0 = 0xb0"
proof -
  have low: "ch AND 0x0F = ch"
    using less_mask_eq [of ch 4] assms by (simp add: mask_eq_decr_exp)
  have "ch AND 0xF0 = (ch AND 0x0F) AND 0xF0" by (simp add: low)
  also have "\<dots> = ch AND (0x0F AND 0xF0)" by (simp only: and.assoc)
  also have "\<dots> = 0" by simp
  finally have high: "ch AND 0xF0 = 0" .
  show "(0xb0 OR ch) AND 0x0F = ch"
    by (simp add: bit.conj_disj_distrib2 low)
  show "(0xb0 OR ch) AND 0xF0 = 0xb0"
    by (simp add: bit.conj_disj_distrib2 high)
qed

text \<open>
  C6, as amended. With the Launchkey active, a press (a non-zero value) of controller
  104, 105, 115 or 117 sends one OSC action, and the action sent with shift held is
  different from the one sent without: \<open>BACK_UP\<close> and not \<open>SWITCH_SELECT_SHORT\<close>,
  \<open>BACK_DOWN\<close> and not \<open>SWITCH_BACK_SHORT\<close>, \<open>TOGGLE_AUDIO_PLAY\<close> and not
  \<open>TOGGLE_MIDI_PLAY\<close>, \<open>TOGGLE_AUDIO_RECORD\<close> and not \<open>TOGGLE_MIDI_RECORD\<close>.
  A release (value 0) of any of the four does nothing, with shift held or not: the state
  and the host buffer are as before.
  A controller from 21 to 28 is forwarded to the host, when the host buffer has room for
  three bytes, as one message with status \<open>0xb0 | g_nMidiChannel\<close>, the value
  unchanged, and as controller number the low eight bits of the incoming number plus
  \<open>g_nCCoffset\<close>, plus 40 when shift is held; so the controller number is that sum
  whenever the sum is between 0 and 255. When the buffer has no room nothing is
  forwarded. For a channel below 16 the status byte is a control change on that
  channel.
\<close>

theorem shift_gated_decode:
  "(g_nProtocol s = 0 \<and> b0 AND 0xF0 = 0xb0 \<and> b2 \<noteq> 0 \<longrightarrow>
      protocolHandler (s\<lparr>g_bShift := False\<rparr>) (Some [b0, 104, b2]) out =
        (osc_send (s\<lparr>g_bShift := False\<rparr>) ''/cuia/SWITCH_SELECT_SHORT'' [], out) \<and>
      protocolHandler (s\<lparr>g_bShift := True\<rparr>) (Some [b0, 104, b2]) out =
        (osc_send (s\<lparr>g_bShift := True\<rparr>) ''/cuia/BACK_UP'' [], out) \<and>
      protocolHandler (s\<lparr>g_bShift := False\<rparr>) (Some [b0, 105, b2]) out =
        (osc_send (s\<lparr>g_bShift := False\<rparr>) ''/cuia/SWITCH_BACK_SHORT'' [], out) \<and>
      protocolHandler (s\<lparr>g_bShift := True\<rparr>) (Some [b0, 105, b2]) out =
        (osc_send (s\<lparr>g_bShift := True\<rparr>) ''/cuia/BACK_DOWN'' [], out) \<and>
      protocolHandler (s\<lparr>g_bShift := False\<rparr>) (Some [b0, 115, b2]) out =
        (osc_send (s\<lparr>g_bShift := False\<rparr>) ''/cuia/TOGGLE_MIDI_PLAY'' [], out) \<and>
      protocolHandler (s\<lparr>g_bShift := True\<rparr>) (Some [b0, 115, b2]) out =
        (osc_send (s\<lparr>g_bShift := True\<rparr>) ''/cuia/TOGGLE_AUDIO_PLAY'' [], out) \<and>
      protocolHandler (s\<lparr>g_bShift := False\<rparr>) (Some [b0, 117, b2]) out =
        (osc_send (s\<lparr>g_bShift := False\<rparr>) ''/cuia/TOGGLE_MIDI_RECORD'' [], out) \<and>
      protocolHandler (s\<lparr>g_bShift := True\<rparr>) (Some [b0, 117, b2]) out =
        (osc_send (s\<lparr>g_bShift := True\<rparr>) ''/cuia/TOGGLE_AUDIO_RECORD'' [], out)) \<and>
   (g_nProtocol s = 0 \<and> b0 AND 0xF0 = 0xb0 \<longrightarrow>
      protocolHandler (s\<lparr>g_bShift := False\<rparr>) (Some [b0, 104, 0]) out =
        (s\<lparr>g_bShift := False\<rparr>, out) \<and>
      protocolHandler (s\<lparr>g_bShift := True\<rparr>) (Some [b0, 104, 0]) out =
        (s\<lparr>g_bShift := True\<rparr>, out) \<and>
      protocolHandler (s\<lparr>g_bShift := False\<rparr>) (Some [b0, 105, 0]) out =
        (s\<lparr>g_bShift := False\<rparr>, out) \<and>
      protocolHandler (s\<lparr>g_bShift := True\<rparr>) (Some [b0, 105, 0]) out =
        (s\<lparr>g_bShift := True\<rparr>, out) \<and>
      protocolHandler (s\<lparr>g_bShift := False\<rparr>) (Some [b0, 115, 0]) out =
        (s\<lparr>g_bShift := False\<rparr>, out) \<and>
      protocolHandler (s\<lparr>g_bShift := True\<rparr>) (Some [b0, 115, 0]) out =
        (s\<lparr>g_bShift := True\<rparr>, out) \<and>
      protocolHandler (s\<lparr>g_bShift := False\<rparr>) (Some [b0, 117, 0]) out =
        (s\<lparr>g_bShift := False\<rparr>, out) \<and>
      protocolHandler (s\<lparr>g_bShift := True\<rparr>) (Some [b0, 117, 0]) out =
        (s\<lparr>g_bShift := True\<rparr>, out)) \<and>
   (g_nProtocol s = 0 \<and> b0 AND 0xF0 = 0xb0 \<and> 20 < b1 \<and> b1 < 29 \<and>
    jack_midi_event_reserve out 3 \<longrightarrow>
      protocolHandler s (Some [b0, b1, b2]) out =
        (s, write_event out
              [0xb0 OR g_nMidiChannel s,
               word_of_int (uint b1 + g_nCCoffset s + (if g_bShift s then 40 else 0)),
               b2]) \<and>
      uint (word_of_int (uint b1 + g_nCCoffset s + (if g_bShift s then 40 else 0)) :: byte) =
        (uint b1 + g_nCCoffset s + (if g_bShift s then 40 else 0)) mod 256) \<and>
   (g_nProtocol s = 0 \<and> b0 AND 0xF0 = 0xb0 \<and> 20 < b1 \<and> b1 < 29 \<and>
    \<not> jack_midi_event_reserve out 3 \<longrightarrow>
      protocolHandler s (Some [b0, b1, b2]) out = (s, out)) \<and>
   (g_nMidiChannel s < 16 \<longrightarrow>
      (0xb0 OR g_nMidiChannel s) AND 0x0F = g_nMidiChannel s \<and>
      (0xb0 OR g_nMidiChannel s) AND 0xF0 = 0xb0)"
proof -
  show ?thesis
  proof (intro conjI impI; (elim conjE)?)
    assume a: "g_nProtocol s = 0" "b0 AND 0xF0 = 0xb0" "b2 \<noteq> 0"
    have u: "g_nProtocol (s\<lparr>g_bShift := False\<rparr>) = 0" "\<not> g_bShift (s\<lparr>g_bShift := False\<rparr>)"
      and sh: "g_nProtocol (s\<lparr>g_bShift := True\<rparr>) = 0" "g_bShift (s\<lparr>g_bShift := True\<rparr>)"
      using a(1) by simp_all
    show "protocolHandler (s\<lparr>g_bShift := False\<rparr>) (Some [b0, 104, b2]) out =
        (osc_send (s\<lparr>g_bShift := False\<rparr>) ''/cuia/SWITCH_SELECT_SHORT'' [], out)"
      by (rule button_unshifted [OF u(1) a(2) u(2) a(3)])
    show "protocolHandler (s\<lparr>g_bShift := True\<rparr>) (Some [b0, 104, b2]) out =
        (osc_send (s\<lparr>g_bShift := True\<rparr>) ''/cuia/BACK_UP'' [], out)"
      by (rule button_shifted [OF sh(1) a(2) sh(2) a(3)])
    show "protocolHandler (s\<lparr>g_bShift := False\<rparr>) (Some [b0, 105, b2]) out =
        (osc_send (s\<lparr>g_bShift := False\<rparr>) ''/cuia/SWITCH_BACK_SHORT'' [], out)"
      by (rule button_unshifted [OF u(1) a(2) u(2) a(3)])
    show "protocolHandler (s\<lparr>g_bShift := True\<rparr>) (Some [b0, 105, b2]) out =
        (osc_send (s\<lparr>g_bShift := True\<rparr>) ''/cuia/BACK_DOWN'' [], out)"
      by (rule button_shifted [OF sh(1) a(2) sh(2) a(3)])
    show "protocolHandler (s\<lparr>g_bShift := False\<rparr>) (Some [b0, 115, b2]) out =
        (osc_send (s\<lparr>g_bShift := False\<rparr>) ''/cuia/TOGGLE_MIDI_PLAY'' [], out)"
      by (rule button_unshifted [OF u(1) a(2) u(2) a(3)])
    show "protocolHandler (s\<lparr>g_bShift := True\<rparr>) (Some [b0, 115, b2]) out =
        (osc_send (s\<lparr>g_bShift := True\<rparr>) ''/cuia/TOGGLE_AUDIO_PLAY'' [], out)"
      by (rule button_shifted [OF sh(1) a(2) sh(2) a(3)])
    show "protocolHandler (s\<lparr>g_bShift := False\<rparr>) (Some [b0, 117, b2]) out =
        (osc_send (s\<lparr>g_bShift := False\<rparr>) ''/cuia/TOGGLE_MIDI_RECORD'' [], out)"
      by (rule button_unshifted [OF u(1) a(2) u(2) a(3)])
    show "protocolHandler (s\<lparr>g_bShift := True\<rparr>) (Some [b0, 117, b2]) out =
        (osc_send (s\<lparr>g_bShift := True\<rparr>) ''/cuia/TOGGLE_AUDIO_RECORD'' [], out)"
      by (rule button_shifted [OF sh(1) a(2) sh(2) a(3)])
  next
    assume a: "g_nProtocol s = 0" "b0 AND 0xF0 = 0xb0"
    have u: "g_nProtocol (s\<lparr>g_bShift := False\<rparr>) = 0"
      and sh: "g_nProtocol (s\<lparr>g_bShift := True\<rparr>) = 0"
      using a(1) by simp_all
    show "protocolHandler (s\<lparr>g_bShift := False\<rparr>) (Some [b0, 104, 0]) out =
        (s\<lparr>g_bShift := False\<rparr>, out)"
      by (rule button_released [OF u a(2)])
    show "protocolHandler (s\<lparr>g_bShift := True\<rparr>) (Some [b0, 104, 0]) out =
        (s\<lparr>g_bShift := True\<rparr>, out)"
      by (rule button_released [OF sh a(2)])
    show "protocolHandler (s\<lparr>g_bShift := False\<rparr>) (Some [b0, 105, 0]) out =
        (s\<lparr>g_bShift := False\<rparr>, out)"
      by (rule button_released [OF u a(2)])
    show "protocolHandler (s\<lparr>g_bShift := True\<rparr>) (Some [b0, 105, 0]) out =
        (s\<lparr>g_bShift := True\<rparr>, out)"
      by (rule button_released [OF sh a(2)])
    show "protocolHandler (s\<lparr>g_bShift := False\<rparr>) (Some [b0, 115, 0]) out =
        (s\<lparr>g_bShift := False\<rparr>, out)"
      by (rule button_released [OF u a(2)])
    show "protocolHandler (s\<lparr>g_bShift := True\<rparr>) (Some [b0, 115, 0]) out =
        (s\<lparr>g_bShift := True\<rparr>, out)"
      by (rule button_released [OF sh a(2)])
    show "protocolHandler (s\<lparr>g_bShift := False\<rparr>) (Some [b0, 117, 0]) out =
        (s\<lparr>g_bShift := False\<rparr>, out)"
      by (rule button_released [OF u a(2)])
    show "protocolHandler (s\<lparr>g_bShift := True\<rparr>) (Some [b0, 117, 0]) out =
        (s\<lparr>g_bShift := True\<rparr>, out)"
      by (rule button_released [OF sh a(2)])
  next
    assume a: "g_nProtocol s = 0" "b0 AND 0xF0 = 0xb0" "20 < b1" "b1 < 29"
      "jack_midi_event_reserve out 3"
    show "protocolHandler s (Some [b0, b1, b2]) out =
        (s, write_event out
              [0xb0 OR g_nMidiChannel s,
               word_of_int (uint b1 + g_nCCoffset s + (if g_bShift s then 40 else 0)),
               b2])"
      unfolding knob_forwarded [OF a(1-4)] sendMidi_bytes [OF a(5)] ..
  next
    show "uint (word_of_int (uint b1 + g_nCCoffset s + (if g_bShift s then 40 else 0)) :: byte) =
        (uint b1 + g_nCCoffset s + (if g_bShift s then 40 else 0)) mod 256"
      by (rule controller_byte)
  next
    assume a: "g_nProtocol s = 0" "b0 AND 0xF0 = 0xb0" "20 < b1" "b1 < 29"
      "\<not> jack_midi_event_reserve out 3"
    show "protocolHandler s (Some [b0, b1, b2]) out = (s, out)"
      unfolding knob_forwarded [OF a(1-4)] sendMidi_full [OF a(5)] ..
  next
    assume "g_nMidiChannel s < 16"
    then show "(0xb0 OR g_nMidiChannel s) AND 0x0F = g_nMidiChannel s"
      and "(0xb0 OR g_nMidiChannel s) AND 0xF0 = 0xb0"
      by (rule channel_nibble)+
  qed
qed


theorem shift_gated_decode_witness:
  "g_nProtocol launchkey_active = 0 \<and> g_nCCoffset launchkey_active = 1 \<and>
   g_nMidiChannel launchkey_active = 0 \<and>
   (0xb0 :: byte) AND 0xF0 = 0xb0 \<and> (127 :: byte) \<noteq> 0 \<and> (20 :: byte) < 21 \<and> (21 :: byte) < 29 \<and>
   jack_midi_event_reserve \<lparr>capacity = 64, events = []\<rparr> 3 \<and>
   \<not> jack_midi_event_reserve \<lparr>capacity = 2, events = []\<rparr> 3 \<and>
   g_nMidiChannel launchkey_active < 16 \<and>
   (0xb0 OR g_nMidiChannel launchkey_active) AND 0x0F = g_nMidiChannel launchkey_active \<and>
   (0xb0 OR g_nMidiChannel launchkey_active) AND 0xF0 = 0xb0 \<and>
   osc_sent (fst (protocolHandler (launchkey_active\<lparr>g_bShift := False\<rparr>) (Some [0xb0, 115, 127])
                    \<lparr>capacity = 64, events = []\<rparr>))
     = osc_sent launchkey_active @ [(''/cuia/TOGGLE_MIDI_PLAY'', [])] \<and>
   osc_sent (fst (protocolHandler (launchkey_active\<lparr>g_bShift := True\<rparr>) (Some [0xb0, 115, 127])
                    \<lparr>capacity = 64, events = []\<rparr>))
     = osc_sent launchkey_active @ [(''/cuia/TOGGLE_AUDIO_PLAY'', [])] \<and>
   events (snd (protocolHandler (launchkey_active\<lparr>g_bShift := False\<rparr>) (Some [0xb0, 21, 127])
                  \<lparr>capacity = 64, events = []\<rparr>)) = [[0xb0, 22, 127]] \<and>
   events (snd (protocolHandler (launchkey_active\<lparr>g_bShift := True\<rparr>) (Some [0xb0, 21, 127])
                  \<lparr>capacity = 64, events = []\<rparr>)) = [[0xb0, 62, 127]] \<and>
   events (snd (protocolHandler (launchkey_active\<lparr>g_bShift := True\<rparr>) (Some [0xb0, 21, 127])
                  \<lparr>capacity = 2, events = []\<rparr>)) = [] \<and>
   protocolHandler (launchkey_active\<lparr>g_bShift := False\<rparr>) (Some [0xb0, 115, 0])
       \<lparr>capacity = 64, events = []\<rparr>
     = (launchkey_active\<lparr>g_bShift := False\<rparr>, \<lparr>capacity = 64, events = []\<rparr>) \<and>
   protocolHandler (launchkey_active\<lparr>g_bShift := True\<rparr>) (Some [0xb0, 115, 0])
       \<lparr>capacity = 64, events = []\<rparr>
     = (launchkey_active\<lparr>g_bShift := True\<rparr>, \<lparr>capacity = 64, events = []\<rparr>)"
proof -
  have s: "g_nProtocol launchkey_active = 0" "g_nCCoffset launchkey_active = 1"
    "g_nMidiChannel launchkey_active = 0"
    by (simp_all add: launchkey_active_value)
  have m: "(0xb0 :: byte) AND 0xF0 = 0xb0" "(127 :: byte) \<noteq> 0" "(20 :: byte) < 21" "(21 :: byte) < 29"
    by simp_all
  have room: "jack_midi_event_reserve \<lparr>capacity = 64, events = []\<rparr> 3"
    "\<not> jack_midi_event_reserve \<lparr>capacity = 2, events = []\<rparr> 3"
    by (simp_all add: jack_midi_event_reserve_def buffer_used_def)
  from shift_gated_decode
    [of launchkey_active "0xb0" 127 "\<lparr>capacity = 64, events = []\<rparr>" 21] s m
  have play: "osc_sent (fst (protocolHandler (launchkey_active\<lparr>g_bShift := False\<rparr>)
                    (Some [0xb0, 115, 127]) \<lparr>capacity = 64, events = []\<rparr>))
       = osc_sent launchkey_active @ [(''/cuia/TOGGLE_MIDI_PLAY'', [])]"
    and audio: "osc_sent (fst (protocolHandler (launchkey_active\<lparr>g_bShift := True\<rparr>)
                    (Some [0xb0, 115, 127]) \<lparr>capacity = 64, events = []\<rparr>))
       = osc_sent launchkey_active @ [(''/cuia/TOGGLE_AUDIO_PLAY'', [])]"
    by (simp_all add: osc_send_def)
  from shift_gated_decode
    [of "launchkey_active\<lparr>g_bShift := False\<rparr>" "0xb0" 127 "\<lparr>capacity = 64, events = []\<rparr>" 21]
    s m room
  have knob: "events (snd (protocolHandler (launchkey_active\<lparr>g_bShift := False\<rparr>)
                  (Some [0xb0, 21, 127]) \<lparr>capacity = 64, events = []\<rparr>)) = [[0xb0, 22, 127]]"
    by simp
  from shift_gated_decode
    [of "launchkey_active\<lparr>g_bShift := True\<rparr>" "0xb0" 127 "\<lparr>capacity = 64, events = []\<rparr>" 21]
    s m room
  have shifted: "events (snd (protocolHandler (launchkey_active\<lparr>g_bShift := True\<rparr>)
                  (Some [0xb0, 21, 127]) \<lparr>capacity = 64, events = []\<rparr>)) = [[0xb0, 62, 127]]"
    by simp
  from shift_gated_decode
    [of "launchkey_active\<lparr>g_bShift := True\<rparr>" "0xb0" 127 "\<lparr>capacity = 2, events = []\<rparr>" 21]
    s m room
  have full: "events (snd (protocolHandler (launchkey_active\<lparr>g_bShift := True\<rparr>)
                  (Some [0xb0, 21, 127]) \<lparr>capacity = 2, events = []\<rparr>)) = []"
    by simp
  have ch: "g_nMidiChannel launchkey_active < 16" by (simp add: s)
  from shift_gated_decode
    [of launchkey_active "0xb0" 127 "\<lparr>capacity = 64, events = []\<rparr>" 21] ch
  have nibbles:
    "(0xb0 OR g_nMidiChannel launchkey_active) AND 0x0F = g_nMidiChannel launchkey_active"
    "(0xb0 OR g_nMidiChannel launchkey_active) AND 0xF0 = 0xb0"
    by blast+
  from shift_gated_decode
    [of launchkey_active "0xb0" 127 "\<lparr>capacity = 64, events = []\<rparr>" 21] s m
  have released:
    "protocolHandler (launchkey_active\<lparr>g_bShift := False\<rparr>) (Some [0xb0, 115, 0])
         \<lparr>capacity = 64, events = []\<rparr>
       = (launchkey_active\<lparr>g_bShift := False\<rparr>, \<lparr>capacity = 64, events = []\<rparr>)"
    "protocolHandler (launchkey_active\<lparr>g_bShift := True\<rparr>) (Some [0xb0, 115, 0])
         \<lparr>capacity = 64, events = []\<rparr>
       = (launchkey_active\<lparr>g_bShift := True\<rparr>, \<lparr>capacity = 64, events = []\<rparr>)"
    by blast+
  from s m room ch nibbles play audio knob shifted full released show ?thesis by blast
qed

end
